theory Spec2Isabelle
  imports Main "HOL-Library.Word"
begin

section \<open>The name service of \<^verbatim>\<open>main.go\<close>\<close>

text \<open>
  \<^verbatim>\<open>main.go\<close> is one HTTP service over one MongoDB collection. The handlers are
  embedded as functions that take the collection and the response writer and return both,
  updated. What the Go standard library and the MongoDB driver do is written out where
  the handlers depend on it (the \<^verbatim>\<open>strings\<close> helpers,
  \<^verbatim>\<open>ObjectIDFromHex\<close>, the collection operations). The handlers take the JSON and
  BSON decoders and the generator of ObjectIDs as parameters, gathered in the record
  \<open>lib\<close>, so that what is proved of a handler holds for every decoder; the JSON decoder
  of the standard library is written out as well, as the instance \<open>go_lib\<close>.
\<close>

subsection \<open>The \<^verbatim>\<open>strings\<close> helpers used by the handlers\<close>

text \<open>A Go string is a sequence of bytes; \<^typ>\<open>string\<close> is a list of 8-bit characters.\<close>

definition HasPrefix :: "string \<Rightarrow> string \<Rightarrow> bool" where
  "HasPrefix s p = (take (length p) s = p)"

definition TrimPrefix :: "string \<Rightarrow> string \<Rightarrow> string" where
  "TrimPrefix s p = (if HasPrefix s p then drop (length p) s else s)"

text \<open>\<^verbatim>\<open>strings.Trim(s, cutset)\<close> for a cutset of one-byte characters.\<close>

definition Trim :: "string \<Rightarrow> string \<Rightarrow> string" where
  "Trim s cutset =
     rev (dropWhile (\<lambda>c. c \<in> set cutset) (rev (dropWhile (\<lambda>c. c \<in> set cutset) s)))"

text \<open>
  \<^verbatim>\<open>strings.Split(s, sep)\<close> for a separator of one byte: the pieces between the
  separators, one piece (the empty one) for the empty string.
\<close>

fun Split :: "string \<Rightarrow> char \<Rightarrow> string list" where
  "Split [] sep = [[]]"
| "Split (c # cs) sep =
     (if c = sep then [] # Split cs sep
      else (case Split cs sep of
              [] \<Rightarrow> [[c]]
            | p # ps \<Rightarrow> (c # p) # ps))"

fun Join :: "string list \<Rightarrow> string \<Rightarrow> string" where
  "Join [] sep = []"
| "Join [x] sep = x"
| "Join (x # y # ys) sep = x @ sep @ Join (y # ys) sep"

text \<open>
  \<^verbatim>\<open>strings.TrimSpace\<close> removes the leading and trailing white space of Unicode.
  On the bytes of the string these are the six ASCII characters and the UTF-8 encodings
  of U+0085, U+00A0, U+1680, U+2000 to U+200A, U+2028, U+2029, U+202F, U+205F, U+3000.
\<close>

definition space_encodings :: "string list" where
  "space_encodings =
     [[CHR 0x09], [CHR 0x0A], [CHR 0x0B], [CHR 0x0C], [CHR 0x0D], [CHR 0x20],
      [CHR 0xC2, CHR 0x85], [CHR 0xC2, CHR 0xA0],
      [CHR 0xE1, CHR 0x9A, CHR 0x80],
      [CHR 0xE2, CHR 0x80, CHR 0x80], [CHR 0xE2, CHR 0x80, CHR 0x81],
      [CHR 0xE2, CHR 0x80, CHR 0x82], [CHR 0xE2, CHR 0x80, CHR 0x83],
      [CHR 0xE2, CHR 0x80, CHR 0x84], [CHR 0xE2, CHR 0x80, CHR 0x85],
      [CHR 0xE2, CHR 0x80, CHR 0x86], [CHR 0xE2, CHR 0x80, CHR 0x87],
      [CHR 0xE2, CHR 0x80, CHR 0x88], [CHR 0xE2, CHR 0x80, CHR 0x89],
      [CHR 0xE2, CHR 0x80, CHR 0x8A],
      [CHR 0xE2, CHR 0x80, CHR 0xA8], [CHR 0xE2, CHR 0x80, CHR 0xA9],
      [CHR 0xE2, CHR 0x80, CHR 0xAF], [CHR 0xE2, CHR 0x81, CHR 0x9F],
      [CHR 0xE3, CHR 0x80, CHR 0x80]]"

definition leading_space :: "string \<Rightarrow> nat" where
  "leading_space s =
     (case find (\<lambda>q. take (length q) s = q) space_encodings of
        None \<Rightarrow> 0
      | Some q \<Rightarrow> length q)"

definition trailing_space :: "string \<Rightarrow> nat" where
  "trailing_space s =
     (case find (\<lambda>q. drop (length s - length q) s = q) space_encodings of
        None \<Rightarrow> 0
      | Some q \<Rightarrow> length q)"

function TrimLeftSpace :: "string \<Rightarrow> string" where
  "TrimLeftSpace s =
     (if leading_space s = 0 \<or> s = [] then s else TrimLeftSpace (drop (leading_space s) s))"
  by pat_completeness auto
termination
  by (relation "measure length") auto

function TrimRightSpace :: "string \<Rightarrow> string" where
  "TrimRightSpace s =
     (if trailing_space s = 0 \<or> s = [] then s
      else TrimRightSpace (take (length s - trailing_space s) s))"
  by pat_completeness auto
termination
  by (relation "measure length") auto

declare TrimLeftSpace.simps [simp del]
declare TrimRightSpace.simps [simp del]

definition TrimSpace :: "string \<Rightarrow> string" where
  "TrimSpace s = TrimRightSpace (TrimLeftSpace s)"

subsection \<open>\<^verbatim>\<open>extractID\<close>\<close>

definition extractID :: "string \<Rightarrow> string \<Rightarrow> string + string" where
  "extractID path pref =
     (if \<not> HasPrefix path pref then Inl ''bad path''
      else
        let rest = TrimPrefix path pref;
            parts = Split (Trim rest ''/'') (CHR ''/'')
        in (case parts of
              [] \<Rightarrow> Inl ''no id''
            | p # _ \<Rightarrow> if p = [] then Inl ''no id'' else Inr p))"

subsection \<open>ObjectIDs\<close>

text \<open>
  \<^verbatim>\<open>primitive.ObjectID\<close> is an array of twelve bytes. \<^verbatim>\<open>ObjectIDFromHex\<close>
  accepts exactly the strings of 24 hexadecimal digits, of either case;
  \<^verbatim>\<open>Hex\<close>, which the JSON encoding of an ObjectID uses, writes lower-case digits.
\<close>

type_synonym ObjectID = "8 word list"

datatype hex_error = ErrInvalidHex | InvalidByteError

definition fromHexChar :: "char \<Rightarrow> nat option" where
  "fromHexChar c =
     (let n = (of_char c :: nat)
      in if 48 \<le> n \<and> n \<le> 57 then Some (n - 48)
         else if 97 \<le> n \<and> n \<le> 102 then Some (n - 87)
         else if 65 \<le> n \<and> n \<le> 70 then Some (n - 55)
         else None)"

fun hex_Decode :: "string \<Rightarrow> (8 word list) option" where
  "hex_Decode [] = Some []"
| "hex_Decode [c] = None"
| "hex_Decode (a # b # cs) =
     (case (fromHexChar a, fromHexChar b) of
        (Some h, Some l) \<Rightarrow>
          (case hex_Decode cs of
             None \<Rightarrow> None
           | Some bs \<Rightarrow> Some (of_nat (16 * h + l) # bs))
      | _ \<Rightarrow> None)"

definition ObjectIDFromHex :: "string \<Rightarrow> hex_error + ObjectID" where
  "ObjectIDFromHex s =
     (if length s \<noteq> 24 then Inl ErrInvalidHex
      else (case hex_Decode s of
              None \<Rightarrow> Inl InvalidByteError
            | Some oid \<Rightarrow> Inr oid))"

definition hexdigit :: "nat \<Rightarrow> char" where
  "hexdigit n = ''0123456789abcdef'' ! (n mod 16)"

fun Hex :: "ObjectID \<Rightarrow> string" where
  "Hex [] = []"
| "Hex (b # bs) = hexdigit (unat b div 16) # hexdigit (unat b mod 16) # Hex bs"

text \<open>The zero value of the type.\<close>

definition NilObjectID :: ObjectID where
  "NilObjectID = replicate 12 0"

subsection \<open>The record type and its JSON encoding\<close>

record Name =
  ID :: ObjectID
  Name :: string

datatype json =
  JNull
| JString string
| JArray "json list"
| JObject "(string \<times> json) list"

text \<open>
  The field \<^verbatim>\<open>ID\<close> is an array of twelve bytes, which \<^verbatim>\<open>omitempty\<close>
  never omits; its JSON form is the hexadecimal string.
\<close>

definition Name_json :: "Name \<Rightarrow> json" where
  "Name_json n = JObject [(''id'', JString (Hex (ID n))), (''name'', JString (Name n))]"

text \<open>
  A Go slice is \<^verbatim>\<open>nil\<close> or holds elements. \<^verbatim>\<open>var out []Name\<close> declares the
  nil slice, \<^verbatim>\<open>append\<close> returns a slice that is not nil, and
  \<^verbatim>\<open>encoding/json\<close> writes a nil slice as \<^verbatim>\<open>null\<close> and any other slice
  as an array.
\<close>

datatype 'a slice = NilSlice | Slice "'a list"

fun append_slice :: "'a slice \<Rightarrow> 'a \<Rightarrow> 'a slice" where
  "append_slice NilSlice x = Slice [x]"
| "append_slice (Slice xs) x = Slice (xs @ [x])"

fun Names_json :: "Name slice \<Rightarrow> json" where
  "Names_json NilSlice = JNull"
| "Names_json (Slice ns) = JArray (map Name_json ns)"

subsection \<open>The collection\<close>

text \<open>
  The global \<^verbatim>\<open>collection\<close> is the state of the service: the documents it
  holds, in their natural order, the error that the next call on it meets (a lost
  connection, a deadline), the error that a cursor meets while it is read, how many
  ObjectIDs the driver has generated, and the calls made on it so far.
\<close>

datatype bval =
  BString string
| BObjectID ObjectID
| BInt int
| BDoc "(string \<times> bval) list"

type_synonym bsonM = "(string \<times> bval) list"

datatype store_call =
  InsertOneCall bsonM
| FindCall bsonM
| FindOneCall bsonM
| UpdateByIDCall ObjectID bsonM
| DeleteOneCall bsonM

datatype store_error = ErrNoDocuments | StoreError string

fun Error :: "store_error \<Rightarrow> string" where
  "Error ErrNoDocuments = ''mongo: no documents in result''"
| "Error (StoreError msg) = msg"

record collection =
  docs :: "bsonM list"
  fault :: "string option"
  cursor_fault :: "string option"
  generated :: nat
  calls :: "store_call list"

record Cursor =
  batch :: "bsonM list"
  cursor_err :: "string option"

text \<open>What the handlers take from the libraries without this file writing it out.\<close>

record lib =
  JSONDecodeName :: "string \<Rightarrow> string + Name"
  JSONDecodePayload :: "string \<Rightarrow> string + string"
  BSONDecodeName :: "bsonM \<Rightarrow> string + Name"
  NewObjectID :: "nat \<Rightarrow> ObjectID"

definition logged :: "collection \<Rightarrow> store_call \<Rightarrow> collection" where
  "logged c call = c\<lparr>calls := calls c @ [call]\<rparr>"

text \<open>A filter document matches a document that holds each of its pairs.\<close>

definition matches :: "bsonM \<Rightarrow> bsonM \<Rightarrow> bool" where
  "matches flt d = list_all (\<lambda>(k, v). map_of d k = Some v) flt"

fun delete_first :: "bsonM \<Rightarrow> bsonM list \<Rightarrow> bsonM list" where
  "delete_first flt [] = []"
| "delete_first flt (d # ds) = (if matches flt d then ds else d # delete_first flt ds)"

definition set_field :: "bsonM \<Rightarrow> string \<times> bval \<Rightarrow> bsonM" where
  "set_field d kv =
     (if fst kv \<in> set (map fst d)
      then map (\<lambda>(k, v). if k = fst kv then (k, snd kv) else (k, v)) d
      else d @ [kv])"

fun update_first :: "bsonM \<Rightarrow> bsonM \<Rightarrow> bsonM list \<Rightarrow> bsonM list" where
  "update_first flt flds [] = []"
| "update_first flt flds (d # ds) =
     (if matches flt d then foldl set_field d flds # ds
      else d # update_first flt flds ds)"

text \<open>The \<^verbatim>\<open>_id\<close> fields of the documents, in order.\<close>

definition doc_ids :: "bsonM list \<Rightarrow> bval option list" where
  "doc_ids ds = map (\<lambda>d. map_of d ''_id'') ds"

text \<open>
  \<^verbatim>\<open>InsertOne\<close>: a document without \<^verbatim>\<open>_id\<close> gets a generated ObjectID;
  the collection refuses an \<^verbatim>\<open>_id\<close> it already holds.
\<close>

definition InsertOne :: "lib \<Rightarrow> collection \<Rightarrow> bsonM \<Rightarrow> collection \<times> (store_error + bval)" where
  "InsertOne l c doc =
     (let c1 = logged c (InsertOneCall doc)
      in case fault c of
           Some msg \<Rightarrow> (c1, Inl (StoreError msg))
         | None \<Rightarrow>
             let (c2, v, d) =
                   (case map_of doc ''_id'' of
                      Some v \<Rightarrow> (c1, v, doc)
                    | None \<Rightarrow>
                        (c1\<lparr>generated := Suc (generated c)\<rparr>,
                         BObjectID (NewObjectID l (generated c)),
                         (''_id'', BObjectID (NewObjectID l (generated c))) # doc))
             in if Some v \<in> set (doc_ids (docs c))
                then (c2, Inl (StoreError ''E11000 duplicate key error''))
                else (c2\<lparr>docs := docs c @ [d]\<rparr>, Inr v))"

definition Find :: "collection \<Rightarrow> bsonM \<Rightarrow> collection \<times> (store_error + Cursor)" where
  "Find c flt =
     (let c1 = logged c (FindCall flt)
      in case fault c of
           Some msg \<Rightarrow> (c1, Inl (StoreError msg))
         | None \<Rightarrow>
             (c1, Inr \<lparr>batch = filter (matches flt) (docs c), cursor_err = cursor_fault c\<rparr>))"

definition FindOne :: "collection \<Rightarrow> bsonM \<Rightarrow> collection \<times> (store_error + bsonM)" where
  "FindOne c flt =
     (let c1 = logged c (FindOneCall flt)
      in case fault c of
           Some msg \<Rightarrow> (c1, Inl (StoreError msg))
         | None \<Rightarrow>
             (case filter (matches flt) (docs c) of
                [] \<Rightarrow> (c1, Inl ErrNoDocuments)
              | d # _ \<Rightarrow> (c1, Inr d)))"

text \<open>
  \<^verbatim>\<open>UpdateByID\<close> with an update document \<^verbatim>\<open>{"$set": {...}}\<close>; the result is
  \<^verbatim>\<open>MatchedCount\<close>.
\<close>

definition UpdateByID :: "collection \<Rightarrow> ObjectID \<Rightarrow> bsonM \<Rightarrow> collection \<times> (store_error + nat)" where
  "UpdateByID c oid upd =
     (let c1 = logged c (UpdateByIDCall oid upd);
          flt = [(''_id'', BObjectID oid)]
      in case fault c of
           Some msg \<Rightarrow> (c1, Inl (StoreError msg))
         | None \<Rightarrow>
             (case upd of
                [(op, BDoc flds)] \<Rightarrow>
                  if op = ''$set''
                  then (c1\<lparr>docs := update_first flt flds (docs c)\<rparr>,
                        Inr (if list_ex (matches flt) (docs c) then 1 else 0))
                  else (c1, Inl (StoreError ''unknown update operator''))
              | _ \<Rightarrow> (c1, Inl (StoreError ''update document must contain an operator''))))"

text \<open>\<^verbatim>\<open>DeleteOne\<close>; the result is \<^verbatim>\<open>DeletedCount\<close>.\<close>

definition DeleteOne :: "collection \<Rightarrow> bsonM \<Rightarrow> collection \<times> (store_error + nat)" where
  "DeleteOne c flt =
     (let c1 = logged c (DeleteOneCall flt)
      in case fault c of
           Some msg \<Rightarrow> (c1, Inl (StoreError msg))
         | None \<Rightarrow>
             (c1\<lparr>docs := delete_first flt (docs c)\<rparr>,
              Inr (if list_ex (matches flt) (docs c) then 1 else 0)))"

subsection \<open>Requests and the response writer\<close>

record Request =
  Method :: string
  URLPath :: string
  Body :: string

datatype written = NoBody | JSON json | Text string

text \<open>
  The \<^verbatim>\<open>http.ResponseWriter\<close>: the header map, the status given to
  \<^verbatim>\<open>WriteHeader\<close> (0 before it is called) and what has been written as the body.
\<close>

record ResponseWriter =
  Header :: "string \<rightharpoonup> string"
  Status :: nat
  Written :: written

definition NewResponseWriter :: ResponseWriter where
  "NewResponseWriter = \<lparr>Header = Map.empty, Status = 0, Written = NoBody\<rparr>"

definition Header_Set :: "ResponseWriter \<Rightarrow> string \<Rightarrow> string \<Rightarrow> ResponseWriter" where
  "Header_Set w k v = w\<lparr>Header := (Header w)(k \<mapsto> v)\<rparr>"

definition WriteHeader :: "ResponseWriter \<Rightarrow> nat \<Rightarrow> ResponseWriter" where
  "WriteHeader w st = w\<lparr>Status := st\<rparr>"

subsection \<open>Response helpers\<close>

text \<open>
  \<^verbatim>\<open>jsonWrite\<close> is given the JSON value of \<^verbatim>\<open>v\<close>. A Go map is encoded with
  its keys in sorted order.
\<close>

definition jsonWrite :: "ResponseWriter \<Rightarrow> nat \<Rightarrow> json \<Rightarrow> ResponseWriter" where
  "jsonWrite w st v =
     (WriteHeader (Header_Set w ''Content-Type'' ''application/json'') st)\<lparr>Written := JSON v\<rparr>"

definition ok :: "ResponseWriter \<Rightarrow> json \<Rightarrow> ResponseWriter" where
  "ok w v = jsonWrite w 200 v"

definition created :: "ResponseWriter \<Rightarrow> json \<Rightarrow> ResponseWriter" where
  "created w v = jsonWrite w 201 v"

definition badRequest :: "ResponseWriter \<Rightarrow> string \<Rightarrow> ResponseWriter" where
  "badRequest w msg = jsonWrite w 400 (JObject [(''error'', JString msg)])"

definition notFound :: "ResponseWriter \<Rightarrow> ResponseWriter" where
  "notFound w = jsonWrite w 404 (JObject [(''error'', JString ''not found'')])"

definition internal :: "ResponseWriter \<Rightarrow> store_error \<Rightarrow> ResponseWriter" where
  "internal w err = jsonWrite w 500 (JObject [(''error'', JString (Error err))])"

definition noContent :: "ResponseWriter \<Rightarrow> ResponseWriter" where
  "noContent w = WriteHeader w 204"

definition methodNotAllowed :: "ResponseWriter \<Rightarrow> string list \<Rightarrow> ResponseWriter" where
  "methodNotAllowed w allowed =
     jsonWrite (Header_Set w ''Allow'' (Join allowed '', '')) 405
       (JObject [(''allow'', JArray (map JString allowed)),
                 (''error'', JString ''method not allowed'')])"

subsection \<open>Handlers\<close>

type_synonym Handler =
  "lib \<Rightarrow> collection \<Rightarrow> ResponseWriter \<Rightarrow> Request \<Rightarrow> collection \<times> ResponseWriter"

definition healthHandler :: Handler where
  "healthHandler l c w r = (c, ok w (JObject [(''status'', JString ''ok'')]))"

text \<open>
  The loop of the listing: each document of the cursor is decoded and appended; the first
  document that does not decode ends the request.
\<close>

fun decode_all :: "lib \<Rightarrow> bsonM list \<Rightarrow> Name slice \<Rightarrow> string + Name slice" where
  "decode_all l [] out = Inr out"
| "decode_all l (d # ds) out =
     (case BSONDecodeName l d of
        Inl err \<Rightarrow> Inl err
      | Inr n \<Rightarrow> decode_all l ds (append_slice out n))"

text \<open>
  In the branch of \<^verbatim>\<open>POST\<close>, the type assertion on \<^verbatim>\<open>InsertedID\<close> panics on
  an identifier that is no ObjectID; the writer is then left as it was.
\<close>

definition namesHandler :: Handler where
  "namesHandler l c w r =
     (if Method r = ''POST'' then
        (case JSONDecodeName l (Body r) of
           Inl err \<Rightarrow> (c, badRequest w (''invalid JSON: '' @ err))
         | Inr payload \<Rightarrow>
             let name = TrimSpace (Name payload)
             in if name = [] then (c, badRequest w ''`name` is required'')
                else (case InsertOne l c [(''name'', BString name)] of
                        (c', Inl err) \<Rightarrow> (c', internal w err)
                      | (c', Inr (BObjectID oid)) \<Rightarrow>
                          (c', created w (Name_json \<lparr>ID = oid, Name = name\<rparr>))
                      | (c', Inr _) \<Rightarrow> (c', w)))
      else if Method r = ''GET'' then
        (case Find c [] of
           (c', Inl err) \<Rightarrow> (c', internal w err)
         | (c', Inr cur) \<Rightarrow>
             (case decode_all l (batch cur) NilSlice of
                Inl err \<Rightarrow> (c', internal w (StoreError err))
              | Inr out \<Rightarrow>
                  (case cursor_err cur of
                     Some err \<Rightarrow> (c', internal w (StoreError err))
                   | None \<Rightarrow> (c', ok w (Names_json out)))))
      else (c, methodNotAllowed w [''GET'', ''POST'']))"

definition nameByIDHandler :: Handler where
  "nameByIDHandler l c w r =
     (case extractID (URLPath r) ''/names/'' of
        Inl err \<Rightarrow> (c, notFound w)
      | Inr idStr \<Rightarrow>
          (case ObjectIDFromHex idStr of
             Inl err \<Rightarrow> (c, badRequest w ''invalid id'')
           | Inr oid \<Rightarrow>
               if Method r = ''GET'' then
                 (case FindOne c [(''_id'', BObjectID oid)] of
                    (c', Inl ErrNoDocuments) \<Rightarrow> (c', notFound w)
                  | (c', Inl err) \<Rightarrow> (c', internal w err)
                  | (c', Inr d) \<Rightarrow>
                      (case BSONDecodeName l d of
                         Inl err \<Rightarrow> (c', internal w (StoreError err))
                       | Inr n \<Rightarrow> (c', ok w (Name_json n))))
               else if Method r = ''PUT'' then
                 (case JSONDecodePayload l (Body r) of
                    Inl err \<Rightarrow> (c, badRequest w (''invalid JSON: '' @ err))
                  | Inr decoded \<Rightarrow>
                      let name = TrimSpace decoded
                      in if name = [] then (c, badRequest w ''`name` is required'')
                         else (case UpdateByID c oid
                                      [(''$set'', BDoc [(''name'', BString name)])] of
                                 (c', Inl err) \<Rightarrow> (c', internal w err)
                               | (c', Inr MatchedCount) \<Rightarrow>
                                   if MatchedCount = 0 then (c', notFound w)
                                   else (c', ok w (Name_json \<lparr>ID = oid, Name = name\<rparr>))))
               else if Method r = ''DELETE'' then
                 (case DeleteOne c [(''_id'', BObjectID oid)] of
                    (c', Inl err) \<Rightarrow> (c', internal w err)
                  | (c', Inr DeletedCount) \<Rightarrow>
                      if DeletedCount = 0 then (c', notFound w)
                      else (c', noContent w))
               else (c, methodNotAllowed w [''GET'', ''PUT'', ''DELETE''])))"

subsection \<open>Routing and the CORS wrapper\<close>

text \<open>
  The three patterns registered in \<^verbatim>\<open>main\<close>: \<^verbatim>\<open>/health\<close> and
  \<^verbatim>\<open>/names\<close> match one path each, \<^verbatim>\<open>/names/\<close> matches every path that
  starts with it, and a path that matches none gets the 404 of the multiplexer itself,
  which is plain text.

  The multiplexer of \<^verbatim>\<open>net/http\<close> first brings the path to its canonical form,
  and answers a path that has an empty segment, or a segment \<^verbatim>\<open>.\<close> or
  \<^verbatim>\<open>..\<close>, with a redirect to the canonical path, without calling a handler.
  That redirect is not part of this model: \<open>mux_match\<close> is the dispatch of a
  canonical path, and the properties of the service are stated at canonical paths only.
  What a handler does with any other path is stated on the handler.
\<close>

datatype route = ToHealth | ToNames | ToNameByID | NoRoute

definition mux_match :: "string \<Rightarrow> route" where
  "mux_match path =
     (if path = ''/health'' then ToHealth
      else if path = ''/names'' then ToNames
      else if HasPrefix path ''/names/'' then ToNameByID
      else NoRoute)"

definition http_NotFound :: "ResponseWriter \<Rightarrow> ResponseWriter" where
  "http_NotFound w =
     (WriteHeader
        (Header_Set (Header_Set w ''Content-Type'' ''text/plain; charset=utf-8'')
           ''X-Content-Type-Options'' ''nosniff'') 404)
     \<lparr>Written := Text (''404 page not found'' @ [CHR 0x0A])\<rparr>"

definition DefaultServeMux :: Handler where
  "DefaultServeMux l c w r =
     (case mux_match (URLPath r) of
        ToHealth \<Rightarrow> healthHandler l c w r
      | ToNames \<Rightarrow> namesHandler l c w r
      | ToNameByID \<Rightarrow> nameByIDHandler l c w r
      | NoRoute \<Rightarrow> (c, http_NotFound w))"

definition corsMiddleware :: "Handler \<Rightarrow> Handler" where
  "corsMiddleware next l c w r =
     (let w1 = Header_Set w ''Access-Control-Allow-Origin'' ''*'';
          w2 = Header_Set w1 ''Access-Control-Allow-Headers'' ''Content-Type'';
          w3 = Header_Set w2 ''Access-Control-Allow-Methods'' ''GET,POST,PUT,DELETE,OPTIONS''
      in if Method r = ''OPTIONS'' then (c, WriteHeader w3 204)
         else next l c w3 r)"

text \<open>The service: what \<^verbatim>\<open>ListenAndServe\<close> runs for one request.\<close>

definition serve :: "lib \<Rightarrow> collection \<Rightarrow> Request \<Rightarrow> collection \<times> ResponseWriter" where
  "serve l c r = corsMiddleware DefaultServeMux l c NewResponseWriter r"

subsection \<open>The decoder of \<^verbatim>\<open>encoding/json\<close>\<close>

text \<open>
  What \<^verbatim>\<open>json.NewDecoder(r.Body).Decode(&payload)\<close> does in the standard
  library, written out for the two payload types of the handlers: the scanner that finds
  the end of the first value of the body, and the filling of the struct from the members
  of that value. The decoder is created with its default options, so a member that names
  no field is skipped. The texts of the errors and the \<^verbatim>\<open>UnmarshalJSON\<close> of the
  ObjectID, which belongs to the driver, stay parameters.
\<close>

definition isSpace :: "char \<Rightarrow> bool" where
  "isSpace c = (c = CHR 0x20 \<or> c = CHR 0x09 \<or> c = CHR 0x0D \<or> c = CHR 0x0A)"

definition isDigit :: "char \<Rightarrow> bool" where
  "isDigit c = (48 \<le> (of_char c :: nat) \<and> (of_char c :: nat) \<le> 57)"

definition isDigit19 :: "char \<Rightarrow> bool" where
  "isDigit19 c = (49 \<le> (of_char c :: nat) \<and> (of_char c :: nat) \<le> 57)"

definition isHex :: "char \<Rightarrow> bool" where
  "isHex c = (fromHexChar c \<noteq> None)"

datatype parse_state = parseObjectKey | parseObjectValue | parseArrayValue

datatype scan_code =
  scanContinue | scanBeginLiteral | scanBeginObject | scanObjectKey | scanObjectValue
| scanEndObject | scanBeginArray | scanArrayValue | scanEndArray | scanSkipSpace
| scanEnd | scanError

datatype step_fn =
  stBeginValueOrEmpty | stBeginValue | stBeginStringOrEmpty | stBeginString
| stEndValue | stEndTop | stInString | stInStringEsc
| stInStringEscU | stInStringEscU1 | stInStringEscU12 | stInStringEscU123
| stNeg | st1 | st0 | stDot | stDot0 | stE | stESign | stE0
| stT | stTr | stTru | stF | stFa | stFal | stFals | stN | stNu | stNul
| stError

record scanner =
  step :: step_fn
  parseState :: "parse_state list"

definition maxNestingDepth :: nat where
  "maxNestingDepth = 10000"

definition scanner_reset :: scanner where
  "scanner_reset = \<lparr>step = stBeginValue, parseState = []\<rparr>"

definition scan_error :: "scanner \<Rightarrow> scanner \<times> scan_code" where
  "scan_error s = (s\<lparr>step := stError\<rparr>, scanError)"

definition to_step :: "scanner \<Rightarrow> step_fn \<Rightarrow> scan_code \<Rightarrow> scanner \<times> scan_code" where
  "to_step s f code = (s\<lparr>step := f\<rparr>, code)"

definition pushParseState ::
  "scanner \<Rightarrow> parse_state \<Rightarrow> scan_code \<Rightarrow> scanner \<times> scan_code" where
  "pushParseState s newParseState successState =
     (let s' = s\<lparr>parseState := newParseState # parseState s\<rparr>
      in if length (parseState s') \<le> maxNestingDepth then (s', successState)
         else scan_error s')"

definition popParseState :: "scanner \<Rightarrow> scanner" where
  "popParseState s =
     (let rest = tl (parseState s)
      in s\<lparr>parseState := rest, step := (if rest = [] then stEndTop else stEndValue)\<rparr>)"

definition stateEndTop :: "scanner \<Rightarrow> char \<Rightarrow> scanner \<times> scan_code" where
  "stateEndTop s c = (if isSpace c then (s, scanEnd) else (s\<lparr>step := stError\<rparr>, scanEnd))"

definition stateEndValue :: "scanner \<Rightarrow> char \<Rightarrow> scanner \<times> scan_code" where
  "stateEndValue s c =
     (case parseState s of
        [] \<Rightarrow> stateEndTop (s\<lparr>step := stEndTop\<rparr>) c
      | ps # rest \<Rightarrow>
          if isSpace c then to_step s stEndValue scanSkipSpace
          else (case ps of
                  parseObjectKey \<Rightarrow>
                    if c = CHR '':'' then
                      (s\<lparr>parseState := parseObjectValue # rest, step := stBeginValue\<rparr>,
                       scanObjectKey)
                    else scan_error s
                | parseObjectValue \<Rightarrow>
                    if c = CHR '','' then
                      (s\<lparr>parseState := parseObjectKey # rest, step := stBeginString\<rparr>,
                       scanObjectValue)
                    else if c = CHR ''}'' then (popParseState s, scanEndObject)
                    else scan_error s
                | parseArrayValue \<Rightarrow>
                    if c = CHR '','' then to_step s stBeginValue scanArrayValue
                    else if c = CHR '']'' then (popParseState s, scanEndArray)
                    else scan_error s))"

definition stateBeginValue :: "scanner \<Rightarrow> char \<Rightarrow> scanner \<times> scan_code" where
  "stateBeginValue s c =
     (if isSpace c then (s, scanSkipSpace)
      else if c = CHR ''{'' then
        pushParseState (s\<lparr>step := stBeginStringOrEmpty\<rparr>) parseObjectKey scanBeginObject
      else if c = CHR ''['' then
        pushParseState (s\<lparr>step := stBeginValueOrEmpty\<rparr>) parseArrayValue scanBeginArray
      else if c = CHR 0x22 then to_step s stInString scanBeginLiteral
      else if c = CHR ''-'' then to_step s stNeg scanBeginLiteral
      else if c = CHR ''0'' then to_step s st0 scanBeginLiteral
      else if c = CHR ''t'' then to_step s stT scanBeginLiteral
      else if c = CHR ''f'' then to_step s stF scanBeginLiteral
      else if c = CHR ''n'' then to_step s stN scanBeginLiteral
      else if isDigit19 c then to_step s st1 scanBeginLiteral
      else scan_error s)"

definition stateBeginString :: "scanner \<Rightarrow> char \<Rightarrow> scanner \<times> scan_code" where
  "stateBeginString s c =
     (if isSpace c then (s, scanSkipSpace)
      else if c = CHR 0x22 then to_step s stInString scanBeginLiteral
      else scan_error s)"

definition state0 :: "scanner \<Rightarrow> char \<Rightarrow> scanner \<times> scan_code" where
  "state0 s c =
     (if c = CHR ''.'' then to_step s stDot scanContinue
      else if c = CHR ''e'' \<or> c = CHR ''E'' then to_step s stE scanContinue
      else stateEndValue s c)"

definition stateESign :: "scanner \<Rightarrow> char \<Rightarrow> scanner \<times> scan_code" where
  "stateESign s c = (if isDigit c then to_step s stE0 scanContinue else scan_error s)"

definition expect :: "scanner \<Rightarrow> char \<Rightarrow> char \<Rightarrow> step_fn \<Rightarrow> scanner \<times> scan_code" where
  "expect s c want f = (if c = want then to_step s f scanContinue else scan_error s)"

text \<open>One byte through the scanner: the step function that is current is applied.\<close>

definition scan_step :: "scanner \<Rightarrow> char \<Rightarrow> scanner \<times> scan_code" where
  "scan_step s c =
     (case step s of
        stBeginValueOrEmpty \<Rightarrow>
          if isSpace c then (s, scanSkipSpace)
          else if c = CHR '']'' then stateEndValue s c
          else stateBeginValue s c
      | stBeginValue \<Rightarrow> stateBeginValue s c
      | stBeginStringOrEmpty \<Rightarrow>
          if isSpace c then (s, scanSkipSpace)
          else if c = CHR ''}'' then
            stateEndValue (s\<lparr>parseState := parseObjectValue # tl (parseState s)\<rparr>) c
          else stateBeginString s c
      | stBeginString \<Rightarrow> stateBeginString s c
      | stEndValue \<Rightarrow> stateEndValue s c
      | stEndTop \<Rightarrow> stateEndTop s c
      | stInString \<Rightarrow>
          if c = CHR 0x22 then to_step s stEndValue scanContinue
          else if c = CHR 0x5C then to_step s stInStringEsc scanContinue
          else if (of_char c :: nat) < 32 then scan_error s
          else (s, scanContinue)
      | stInStringEsc \<Rightarrow>
          if c \<in> set [CHR ''b'', CHR ''f'', CHR ''n'', CHR ''r'', CHR ''t'', CHR 0x5C, CHR ''/'',
                       CHR 0x22]
          then to_step s stInString scanContinue
          else if c = CHR ''u'' then to_step s stInStringEscU scanContinue
          else scan_error s
      | stInStringEscU \<Rightarrow>
          if isHex c then to_step s stInStringEscU1 scanContinue else scan_error s
      | stInStringEscU1 \<Rightarrow>
          if isHex c then to_step s stInStringEscU12 scanContinue else scan_error s
      | stInStringEscU12 \<Rightarrow>
          if isHex c then to_step s stInStringEscU123 scanContinue else scan_error s
      | stInStringEscU123 \<Rightarrow>
          if isHex c then to_step s stInString scanContinue else scan_error s
      | stNeg \<Rightarrow>
          if c = CHR ''0'' then to_step s st0 scanContinue
          else if isDigit19 c then to_step s st1 scanContinue
          else scan_error s
      | st1 \<Rightarrow> if isDigit c then to_step s st1 scanContinue else state0 s c
      | st0 \<Rightarrow> state0 s c
      | stDot \<Rightarrow> if isDigit c then to_step s stDot0 scanContinue else scan_error s
      | stDot0 \<Rightarrow>
          if isDigit c then (s, scanContinue)
          else if c = CHR ''e'' \<or> c = CHR ''E'' then to_step s stE scanContinue
          else stateEndValue s c
      | stE \<Rightarrow>
          if c = CHR ''+'' \<or> c = CHR ''-'' then to_step s stESign scanContinue
          else stateESign s c
      | stESign \<Rightarrow> stateESign s c
      | stE0 \<Rightarrow> if isDigit c then (s, scanContinue) else stateEndValue s c
      | stT \<Rightarrow> expect s c (CHR ''r'') stTr
      | stTr \<Rightarrow> expect s c (CHR ''u'') stTru
      | stTru \<Rightarrow> expect s c (CHR ''e'') stEndValue
      | stF \<Rightarrow> expect s c (CHR ''a'') stFa
      | stFa \<Rightarrow> expect s c (CHR ''l'') stFal
      | stFal \<Rightarrow> expect s c (CHR ''s'') stFals
      | stFals \<Rightarrow> expect s c (CHR ''e'') stEndValue
      | stN \<Rightarrow> expect s c (CHR ''u'') stNu
      | stNu \<Rightarrow> expect s c (CHR ''l'') stNul
      | stNul \<Rightarrow> expect s c (CHR ''l'') stEndValue
      | stError \<Rightarrow> (s, scanError))"

text \<open>
  \<^verbatim>\<open>Decoder.readValue\<close>: the bytes are scanned until the first value is complete.
  An object or an array is complete at its closing bracket; any other value is complete
  at the byte after it, or at the end of the input.
\<close>

datatype read_result = Done nat | More scanner | Bad

fun scanBytes :: "scanner \<Rightarrow> nat \<Rightarrow> string \<Rightarrow> read_result" where
  "scanBytes s n [] = More s"
| "scanBytes s n (c # cs) =
     (case scan_step s c of
        (s', code) \<Rightarrow>
          if code = scanEnd then Done n
          else if code = scanError then Bad
          else if (code = scanEndObject \<or> code = scanEndArray)
                  \<and> snd (stateEndValue s' (CHR 0x20)) = scanEnd
          then Done (Suc n)
          else scanBytes s' (Suc n) cs)"

datatype json_error = EOF | ErrUnexpectedEOF | SyntaxError | UnmarshalTypeError | HookError string

definition readValue :: "string \<Rightarrow> json_error + nat" where
  "readValue buf =
     (case scanBytes scanner_reset 0 buf of
        Done n \<Rightarrow> Inr n
      | Bad \<Rightarrow> Inl SyntaxError
      | More s \<Rightarrow>
          if snd (scan_step s (CHR 0x20)) = scanEnd then Inr (length buf)
          else if list_ex (\<lambda>c. \<not> isSpace c) buf then Inl ErrUnexpectedEOF
          else Inl EOF)"

text \<open>
  UTF-8 as \<^verbatim>\<open>utf8.DecodeRune\<close> accepts it: the length of the well-formed sequence
  that starts with a byte of 0x80 or more, 0 when there is none.
\<close>

definition inRange :: "nat \<Rightarrow> nat \<Rightarrow> char \<Rightarrow> bool" where
  "inRange lo hi c = (lo \<le> (of_char c :: nat) \<and> (of_char c :: nat) \<le> hi)"

definition utf8Len :: "string \<Rightarrow> nat" where
  "utf8Len s =
     (case s of
        [] \<Rightarrow> 0
      | c0 # rest \<Rightarrow>
          let b = (of_char c0 :: nat) in
          if 0xC2 \<le> b \<and> b \<le> 0xDF then
            (case rest of
               c1 # _ \<Rightarrow> if inRange 0x80 0xBF c1 then 2 else 0
             | _ \<Rightarrow> 0)
          else if 0xE0 \<le> b \<and> b \<le> 0xEF then
            (case rest of
               c1 # c2 # _ \<Rightarrow>
                 if inRange (if b = 0xE0 then 0xA0 else 0x80) (if b = 0xED then 0x9F else 0xBF) c1
                    \<and> inRange 0x80 0xBF c2
                 then 3 else 0
             | _ \<Rightarrow> 0)
          else if 0xF0 \<le> b \<and> b \<le> 0xF4 then
            (case rest of
               c1 # c2 # c3 # _ \<Rightarrow>
                 if inRange (if b = 0xF0 then 0x90 else 0x80) (if b = 0xF4 then 0x8F else 0xBF) c1
                    \<and> inRange 0x80 0xBF c2 \<and> inRange 0x80 0xBF c3
                 then 4 else 0
             | _ \<Rightarrow> 0)
          else 0)"

definition RuneError :: nat where
  "RuneError = 0xFFFD"

definition EncodeRune :: "nat \<Rightarrow> string" where
  "EncodeRune r0 =
     (let r = (if (0xD800 \<le> r0 \<and> r0 \<le> 0xDFFF) \<or> 0x10FFFF < r0 then RuneError else r0) in
      if r < 0x80 then [char_of r]
      else if r < 0x800 then [char_of (0xC0 + r div 64), char_of (0x80 + r mod 64)]
      else if r < 0x10000 then
        [char_of (0xE0 + r div 4096), char_of (0x80 + (r div 64) mod 64), char_of (0x80 + r mod 64)]
      else
        [char_of (0xF0 + r div 262144), char_of (0x80 + (r div 4096) mod 64),
         char_of (0x80 + (r div 64) mod 64), char_of (0x80 + r mod 64)])"

definition hexval :: "char \<Rightarrow> nat" where
  "hexval c = (case fromHexChar c of None \<Rightarrow> 0 | Some n \<Rightarrow> n)"

definition getu4 :: "char \<Rightarrow> char \<Rightarrow> char \<Rightarrow> char \<Rightarrow> nat" where
  "getu4 a b c d = ((hexval a * 16 + hexval b) * 16 + hexval c) * 16 + hexval d"

definition escaped :: "char \<Rightarrow> char" where
  "escaped e =
     (if e = CHR ''b'' then CHR 0x08
      else if e = CHR ''f'' then CHR 0x0C
      else if e = CHR ''n'' then CHR 0x0A
      else if e = CHR ''r'' then CHR 0x0D
      else if e = CHR ''t'' then CHR 0x09
      else e)"

text \<open>
  \<^verbatim>\<open>unquoteBytes\<close> on what stands between the quotes of a literal that the scanner
  has accepted: escapes are replaced, a pair of surrogate escapes gives one rune, a lone
  surrogate and every byte that is not part of well-formed UTF-8 give U+FFFD.
\<close>

fun unquoteChars :: "string \<Rightarrow> string" where
  "unquoteChars [] = []"
| "unquoteChars (c # cs) =
     (if c = CHR 0x5C then
        (case cs of
           [] \<Rightarrow> []
         | e # es \<Rightarrow>
             if e = CHR ''u'' then
               (case es of
                  a # b # c2 # d # rest \<Rightarrow>
                    if 0xD800 \<le> getu4 a b c2 d \<and> getu4 a b c2 d < 0xE000 then
                      (case rest of
                         bs # u # e1 # e2 # e3 # e4 # rest2 \<Rightarrow>
                           if bs = CHR 0x5C \<and> u = CHR ''u''
                              \<and> isHex e1 \<and> isHex e2 \<and> isHex e3 \<and> isHex e4
                              \<and> getu4 a b c2 d < 0xDC00
                              \<and> 0xDC00 \<le> getu4 e1 e2 e3 e4 \<and> getu4 e1 e2 e3 e4 < 0xE000
                           then EncodeRune (0x10000 + (getu4 a b c2 d - 0xD800) * 1024
                                             + (getu4 e1 e2 e3 e4 - 0xDC00))
                                @ unquoteChars rest2
                           else EncodeRune RuneError @ unquoteChars rest
                       | _ \<Rightarrow> EncodeRune RuneError @ unquoteChars rest)
                    else EncodeRune (getu4 a b c2 d) @ unquoteChars rest
                | _ \<Rightarrow> [])
             else escaped e # unquoteChars es)
      else if (of_char c :: nat) < 0x80 then c # unquoteChars cs
      else if utf8Len (c # cs) = 2 then
        (case cs of c1 # r \<Rightarrow> c # c1 # unquoteChars r | _ \<Rightarrow> [])
      else if utf8Len (c # cs) = 3 then
        (case cs of c1 # c2 # r \<Rightarrow> c # c1 # c2 # unquoteChars r | _ \<Rightarrow> [])
      else if utf8Len (c # cs) = 4 then
        (case cs of c1 # c2 # c3 # r \<Rightarrow> c # c1 # c2 # c3 # unquoteChars r | _ \<Rightarrow> [])
      else EncodeRune RuneError @ unquoteChars cs)"

definition unquote :: "string \<Rightarrow> string" where
  "unquote lit = unquoteChars (butlast (tl lit))"


text \<open>
  A key names a field when it is the name of the field up to the case of its ASCII
  letters (the names \<^verbatim>\<open>name\<close> and \<^verbatim>\<open>id\<close> have no letter with another
  case variant).
\<close>

definition toUpper :: "char \<Rightarrow> char" where
  "toUpper c =
     (if 97 \<le> (of_char c :: nat) \<and> (of_char c :: nat) \<le> 122
      then char_of ((of_char c :: nat) - 32) else c)"

definition foldEq :: "string \<Rightarrow> string \<Rightarrow> bool" where
  "foldEq key name = (map toUpper key = map toUpper name)"

definition skipSpace :: "string \<Rightarrow> string" where
  "skipSpace s = dropWhile isSpace s"

definition valueLen :: "string \<Rightarrow> nat" where
  "valueLen s = (case readValue s of Inl _ \<Rightarrow> 0 | Inr n \<Rightarrow> n)"

text \<open>
  The members of an object, read from the text behind its opening brace: each key
  literal with the text of its value.
\<close>

function objectMembers :: "string \<Rightarrow> (string \<times> string) list" where
  "objectMembers s =
     (let s1 = skipSpace s;
          kl = valueLen s1;
          s3 = skipSpace (drop 1 (skipSpace (drop kl s1)));
          vl = valueLen s3;
          s4 = skipSpace (drop vl s3)
      in if kl = 0 \<or> vl = 0 then []
         else (take kl s1, take vl s3) #
              (if s4 \<noteq> [] \<and> hd s4 = CHR '','' then objectMembers (tl s4) else []))"
  by pat_completeness auto
termination
proof (relation "measure length", goal_cases)
  case 1
  show ?case by simp
next
  case (2 s s1 kl s3 vl s4)
  have shorter: "length (skipSpace x) \<le> length x" for x
    by (simp add: skipSpace_def length_dropWhile_le)
  have "length s4 \<le> length s3"
    using 2 shorter [of "drop vl s3"] by simp
  also have "length s3 \<le> length (skipSpace (drop kl s1))"
    using 2 shorter [of "drop 1 (skipSpace (drop kl s1))"] by simp
  also have "\<dots> \<le> length s1"
    using shorter [of "drop kl s1"] by simp
  also have "\<dots> \<le> length s"
    using 2 shorter [of s] by simp
  finally have "length s4 \<le> length s" .
  moreover have "s4 \<noteq> []" using 2 by simp
  ultimately show ?case by (cases s4) simp_all
qed

declare objectMembers.simps [simp del]

text \<open>
  Filling the struct from the members, in their order. A key that names no field is
  skipped with its value. The field \<^verbatim>\<open>name\<close> takes a string, keeps its value on
  \<^verbatim>\<open>null\<close>, and any other value is a type error, which is reported once all
  members are read. The field \<^verbatim>\<open>id\<close> is handed, as text, to the
  \<^verbatim>\<open>UnmarshalJSON\<close> of the ObjectID, whose error ends the decoding.
\<close>

type_synonym ObjectID_UnmarshalJSON = "string \<Rightarrow> ObjectID \<Rightarrow> string + ObjectID"

fun fillName ::
  "ObjectID_UnmarshalJSON \<Rightarrow> (string \<times> string) list \<Rightarrow> Name \<Rightarrow> bool \<Rightarrow> json_error + Name" where
  "fillName hook [] n savedError = (if savedError then Inl UnmarshalTypeError else Inr n)"
| "fillName hook ((key, val) # ms) n savedError =
     (if foldEq (unquote key) ''name'' then
        (if take 1 val = [CHR 0x22] then fillName hook ms (n\<lparr>Name := unquote val\<rparr>) savedError
         else if take 1 val = ''n'' then fillName hook ms n savedError
         else fillName hook ms n True)
      else if foldEq (unquote key) ''id'' then
        (case hook val (ID n) of
           Inl err \<Rightarrow> Inl (HookError err)
         | Inr oid \<Rightarrow> fillName hook ms (n\<lparr>ID := oid\<rparr>) savedError)
      else fillName hook ms n savedError)"

fun fillPayload :: "(string \<times> string) list \<Rightarrow> string \<Rightarrow> bool \<Rightarrow> json_error + string" where
  "fillPayload [] n savedError = (if savedError then Inl UnmarshalTypeError else Inr n)"
| "fillPayload ((key, val) # ms) n savedError =
     (if foldEq (unquote key) ''name'' then
        (if take 1 val = [CHR 0x22] then fillPayload ms (unquote val) savedError
         else if take 1 val = ''n'' then fillPayload ms n savedError
         else fillPayload ms n True)
      else fillPayload ms n savedError)"

text \<open>
  \<^verbatim>\<open>unmarshal\<close> into a struct: an object fills it, \<^verbatim>\<open>null\<close> leaves it as it
  is, any other value is a type error.
\<close>

definition unmarshalName :: "ObjectID_UnmarshalJSON \<Rightarrow> string \<Rightarrow> json_error + Name" where
  "unmarshalName hook data =
     (case skipSpace data of
        [] \<Rightarrow> Inl ErrUnexpectedEOF
      | c # cs \<Rightarrow>
          if c = CHR ''{'' then
            fillName hook (objectMembers cs) \<lparr>ID = NilObjectID, Name = []\<rparr> False
          else if c = CHR ''n'' then Inr \<lparr>ID = NilObjectID, Name = []\<rparr>
          else Inl UnmarshalTypeError)"

definition unmarshalPayload :: "string \<Rightarrow> json_error + string" where
  "unmarshalPayload data =
     (case skipSpace data of
        [] \<Rightarrow> Inl ErrUnexpectedEOF
      | c # cs \<Rightarrow>
          if c = CHR ''{'' then fillPayload (objectMembers cs) [] False
          else if c = CHR ''n'' then Inr []
          else Inl UnmarshalTypeError)"

text \<open>\<^verbatim>\<open>json.NewDecoder(r.Body).Decode(&payload)\<close>, for the two types of payload.\<close>

definition DecodeName :: "ObjectID_UnmarshalJSON \<Rightarrow> string \<Rightarrow> json_error + Name" where
  "DecodeName hook body =
     (case readValue body of
        Inl err \<Rightarrow> Inl err
      | Inr n \<Rightarrow> unmarshalName hook (take n body))"

definition DecodePayload :: "string \<Rightarrow> json_error + string" where
  "DecodePayload body =
     (case readValue body of
        Inl err \<Rightarrow> Inl err
      | Inr n \<Rightarrow> unmarshalPayload (take n body))"

definition with_message :: "(json_error \<Rightarrow> string) \<Rightarrow> json_error + 'a \<Rightarrow> string + 'a" where
  "with_message render res = (case res of Inl err \<Rightarrow> Inl (render err) | Inr v \<Rightarrow> Inr v)"

definition go_lib ::
  "(json_error \<Rightarrow> string) \<Rightarrow> ObjectID_UnmarshalJSON \<Rightarrow> (bsonM \<Rightarrow> string + Name)
     \<Rightarrow> (nat \<Rightarrow> ObjectID) \<Rightarrow> lib" where
  "go_lib render hook bsonDecode newID =
     \<lparr>JSONDecodeName = (\<lambda>body. with_message render (DecodeName hook body)),
      JSONDecodePayload = (\<lambda>body. with_message render (DecodePayload body)),
      BSONDecodeName = bsonDecode,
      NewObjectID = newID\<rparr>"

definition namesField :: "string \<times> string \<Rightarrow> bool" where
  "namesField m = (foldEq (unquote (fst m)) ''name'' \<or> foldEq (unquote (fst m)) ''id'')"

definition nameField :: "string \<times> string \<Rightarrow> bool" where
  "nameField m = foldEq (unquote (fst m)) ''name''"

subsection \<open>Worked inputs\<close>

text \<open>
  Inputs for the worked examples: an ObjectID and its hexadecimal form, a collection
  that holds one document, and an instance of \<open>lib\<close>. Its JSON decoders are given on
  the request bodies of the examples only, where they return what
  \<^verbatim>\<open>encoding/json\<close> returns; on every other body they report the end of the input.
\<close>

definition example_oid :: ObjectID where
  "example_oid = [0x50, 0x7f, 0x1f, 0x77, 0xbc, 0xf8, 0x6c, 0xd7, 0x99, 0x43, 0x90, 0x11]"

definition example_JSONDecodeName :: "string \<Rightarrow> string + Name" where
  \<open>example_JSONDecodeName b =
     (if b = ''{"name":" Alice "}'' then Inr \<lparr>ID = NilObjectID, Name = '' Alice ''\<rparr>
      else if b = ''{"id":"507f1f77bcf86cd799439011","name":" Alice "}''
      then Inr \<lparr>ID = example_oid, Name = '' Alice ''\<rparr>
      else if b = ''{"name":"  "}'' then Inr \<lparr>ID = NilObjectID, Name = ''  ''\<rparr>
      else Inl ''EOF'')\<close>

definition example_JSONDecodePayload :: "string \<Rightarrow> string + string" where
  \<open>example_JSONDecodePayload b =
     (if b = ''{"name":"Bob"}'' then Inr ''Bob''
      else if b = ''{"name":"  "}'' then Inr ''  ''
      else Inl ''EOF'')\<close>

definition example_BSONDecodeName :: "bsonM \<Rightarrow> string + Name" where
  "example_BSONDecodeName d =
     (case (map_of d ''_id'', map_of d ''name'') of
        (Some (BObjectID oid), Some (BString s)) \<Rightarrow> Inr \<lparr>ID = oid, Name = s\<rparr>
      | _ \<Rightarrow> Inl ''cannot decode document'')"

definition example_NewObjectID :: "nat \<Rightarrow> ObjectID" where
  "example_NewObjectID n =
     [0x65, 0x4a, 0x1b, 0x2c, 0xaa, 0xbb, 0xcc, 0xdd, 0xee, 0x00, 0x00, of_nat n]"

definition example_lib :: lib where
  "example_lib =
     \<lparr>JSONDecodeName = example_JSONDecodeName,
      JSONDecodePayload = example_JSONDecodePayload,
      BSONDecodeName = example_BSONDecodeName,
      NewObjectID = example_NewObjectID\<rparr>"

definition empty_collection :: collection where
  "empty_collection =
     \<lparr>docs = [], fault = None, cursor_fault = None, generated = 0, calls = []\<rparr>"

definition example_collection :: collection where
  "example_collection =
     \<lparr>docs = [[(''_id'', BObjectID example_oid), (''name'', BString ''Alice'')]],
      fault = None, cursor_fault = None, generated = 0, calls = []\<rparr>"

text \<open>
  An instance of \<open>go_lib\<close>: texts for the errors of the decoder, and an
  \<^verbatim>\<open>UnmarshalJSON\<close> that takes \<^verbatim>\<open>null\<close> and the strings of 24
  hexadecimal digits. The body of the example has a member that names no field.
\<close>

fun example_render :: "json_error \<Rightarrow> string" where
  "example_render EOF = ''EOF''"
| "example_render ErrUnexpectedEOF = ''unexpected EOF''"
| "example_render SyntaxError = ''invalid character''"
| "example_render UnmarshalTypeError = ''json: cannot unmarshal''"
| "example_render (HookError msg) = msg"

definition example_UnmarshalJSON :: "string \<Rightarrow> ObjectID \<Rightarrow> string + ObjectID" where
  "example_UnmarshalJSON raw cur =
     (if raw = ''null'' then Inr cur
      else (case ObjectIDFromHex (butlast (tl raw)) of
              Inl err \<Rightarrow> Inl ''not an ObjectID''
            | Inr oid \<Rightarrow> Inr oid))"

definition example_go_lib :: lib where
  "example_go_lib =
     go_lib example_render example_UnmarshalJSON example_BSONDecodeName example_NewObjectID"

definition example_body :: string where
  \<open>example_body = ''{"name":" Alice ","role":"admin"}''\<close>

section \<open>Facts about the helpers\<close>

subsection \<open>What the response helpers write\<close>

lemma jsonWrite_fields:
  "Status (jsonWrite w st v) = st"
  "Written (jsonWrite w st v) = JSON v"
  "Header (jsonWrite w st v) = (Header w)(''Content-Type'' \<mapsto> ''application/json'')"
  by (simp_all add: jsonWrite_def WriteHeader_def Header_Set_def)

lemma badRequest_fields:
  "Status (badRequest w msg) = 400"
  "Written (badRequest w msg) = JSON (JObject [(''error'', JString msg)])"
  by (simp_all add: badRequest_def jsonWrite_fields)

lemma created_fields:
  "Status (created w v) = 201"
  "Written (created w v) = JSON v"
  by (simp_all add: created_def jsonWrite_fields)

lemma internal_fields:
  "Status (internal w err) = 500"
  "Written (internal w err) = JSON (JObject [(''error'', JString (Error err))])"
  by (simp_all add: internal_def jsonWrite_fields)

lemma notFound_fields:
  "Status (notFound w) = 404"
  "Written (notFound w) = JSON (JObject [(''error'', JString ''not found'')])"
  by (simp_all add: notFound_def jsonWrite_fields)

lemma ok_fields:
  "Status (ok w v) = 200"
  "Written (ok w v) = JSON v"
  by (simp_all add: ok_def jsonWrite_fields)

lemma noContent_fields:
  "Status (noContent w) = 204"
  "Written (noContent w) = Written w"
  "Header (noContent w) = Header w"
  by (simp_all add: noContent_def WriteHeader_def)

lemma methodNotAllowed_fields:
  "Status (methodNotAllowed w allowed) = 405"
  "Written (methodNotAllowed w allowed) =
     JSON (JObject [(''allow'', JArray (map JString allowed)),
                    (''error'', JString ''method not allowed'')])"
  "Header (methodNotAllowed w allowed) ''Allow'' = Some (Join allowed '', '')"
  by (simp_all add: methodNotAllowed_def jsonWrite_fields Header_Set_def)

subsection \<open>The worked inputs\<close>

lemma example_oid_hex:
  "ObjectIDFromHex ''507f1f77bcf86cd799439011'' = Inr example_oid"
  by (simp add: ObjectIDFromHex_def fromHexChar_def example_oid_def)

lemma not_an_id_hex: "ObjectIDFromHex ''not-an-id'' = Inl ErrInvalidHex"
  by (simp add: ObjectIDFromHex_def)

lemma extractID_examples:
  "extractID ''/names/not-an-id'' ''/names/'' = Inr ''not-an-id''"
  "extractID ''/names/507f1f77bcf86cd799439011'' ''/names/'' = Inr ''507f1f77bcf86cd799439011''"
  "extractID ''/names/not-an-id/extra'' ''/names/'' = Inr ''not-an-id''"
  "extractID ''/names/507f1f77bcf86cd799439011/extra'' ''/names/'' =
     Inr ''507f1f77bcf86cd799439011''"
  by (simp_all add: extractID_def HasPrefix_def TrimPrefix_def Trim_def)

lemma TrimSpace_examples:
  "TrimSpace '' Alice '' = ''Alice''"
  "TrimSpace ''  '' = []"
  "TrimSpace ''Bob'' = ''Bob''"
  by (simp_all add: TrimSpace_def TrimLeftSpace.simps TrimRightSpace.simps
        leading_space_def trailing_space_def space_encodings_def)

subsection \<open>The first segment of a path\<close>

lemma dropWhile_before_stop:
  "B \<noteq> [] \<Longrightarrow> \<not> P (hd B) \<Longrightarrow> dropWhile P (A @ B) = dropWhile P A @ B"
  by (induction A) (auto simp: dropWhile_eq_self_iff)

lemma rev_dropWhile_rev_prefix:
  "\<exists>u. t = rev (dropWhile P (rev t)) @ u"
proof -
  have "rev (takeWhile P (rev t) @ dropWhile P (rev t)) = t"
    by (simp only: takeWhile_dropWhile_id rev_rev_ident)
  then have "t = rev (dropWhile P (rev t)) @ rev (takeWhile P (rev t))"
    by (simp only: rev_append)
  then show ?thesis by blast
qed

text \<open>
  Trimming the slashes of a string that starts with a segment leaves the segment in front,
  followed by nothing or by a slash.
\<close>

lemma Trim_keeps_first_segment:
  assumes "s \<noteq> []" and "CHR ''/'' \<notin> set s" and "t = [] \<or> hd t = CHR ''/''"
  shows "\<exists>t'. Trim (s @ t) ''/'' = s @ t' \<and> (t' = [] \<or> hd t' = CHR ''/'')"
proof -
  let ?P = "\<lambda>c. c \<in> set ''/''"
  let ?t' = "rev (dropWhile ?P (rev t))"
  have hd: "\<not> ?P (hd s)" using assms(1,2) by (cases s) auto
  have "last s \<noteq> CHR ''/''" using assms(1,2) by (metis last_in_set)
  then have lst: "\<not> ?P (hd (rev s))" by (simp add: hd_rev)
  have "dropWhile ?P (s @ t) = s @ t"
    using hd assms(1) by (simp add: dropWhile_eq_self_iff)
  moreover have "dropWhile ?P (rev t @ rev s) = dropWhile ?P (rev t) @ rev s"
    using lst assms(1) by (intro dropWhile_before_stop) simp_all
  ultimately have eq: "Trim (s @ t) ''/'' = s @ ?t'"
    by (simp add: Trim_def)
  obtain u where u: "t = ?t' @ u" using rev_dropWhile_rev_prefix by blast
  have "?t' = [] \<or> hd ?t' = CHR ''/''"
  proof (cases "?t' = []")
    case True
    then show ?thesis by simp
  next
    case False
    then have "hd t = hd ?t'" using u by (metis hd_append2)
    moreover have "t \<noteq> []" using False u by auto
    ultimately show ?thesis using assms(3) by simp
  qed
  with eq show ?thesis by blast
qed

lemma Split_first_segment:
  "sep \<notin> set s \<Longrightarrow> t = [] \<or> hd t = sep \<Longrightarrow> \<exists>ps. Split (s @ t) sep = s # ps"
proof (induction s)
  case Nil
  then show ?case by (cases t) auto
next
  case (Cons c s)
  then obtain ps where "Split (s @ t) sep = s # ps" by auto
  then show ?case using Cons.prems by auto
qed

lemma extractID_first_segment:
  assumes "s \<noteq> []" and "CHR ''/'' \<notin> set s" and "t = [] \<or> hd t = CHR ''/''"
  shows "extractID (''/names/'' @ s @ t) ''/names/'' = Inr s"
proof -
  obtain t' where t': "Trim (s @ t) ''/'' = s @ t'" "t' = [] \<or> hd t' = CHR ''/''"
    using Trim_keeps_first_segment [OF assms] by blast
  obtain ps where "Split (s @ t') (CHR ''/'') = s # ps"
    using Split_first_segment [OF assms(2) t'(2)] by blast
  then show ?thesis
    using t'(1) assms(1) by (simp add: extractID_def HasPrefix_def TrimPrefix_def)
qed

lemma extractID_no_segment:
  "extractID (''/names/'' @ replicate k (CHR ''/'')) ''/names/'' = Inl ''no id''"
proof -
  have "dropWhile (\<lambda>c. c \<in> set ''/'') (replicate k (CHR ''/'')) = []"
    by (induction k) simp_all
  then show ?thesis
    by (simp add: extractID_def HasPrefix_def TrimPrefix_def Trim_def)
qed

text \<open>The item handler reads the path through \<open>extractID\<close> only.\<close>

lemma nameByIDHandler_path:
  assumes "extractID (URLPath r) ''/names/'' = extractID (URLPath r') ''/names/''"
    and "Method r = Method r'" and "Body r = Body r'"
  shows "nameByIDHandler l c w r = nameByIDHandler l c w r'"
  using assms by (simp add: nameByIDHandler_def cong: sum.case_cong if_cong)

subsection \<open>The collection operations\<close>


lemma InsertOne_calls:
  "calls (fst (InsertOne l c doc)) = calls c @ [InsertOneCall doc]"
  by (simp add: InsertOne_def logged_def Let_def split: option.splits prod.splits)

lemma InsertOne_name_result:
  "InsertOne l c [(''name'', v)] = (c', Inr x) \<Longrightarrow>
     x = BObjectID (NewObjectID l (generated c)) \<and>
     docs c' = docs c @ [[(''_id'', BObjectID (NewObjectID l (generated c))), (''name'', v)]]"
  by (auto simp add: InsertOne_def logged_def Let_def split: option.splits if_splits)

lemma InsertOne_refused:
  "InsertOne l c doc = (c', Inl e) \<Longrightarrow> docs c' = docs c"
  by (auto simp add: InsertOne_def logged_def Let_def split: option.splits if_splits prod.splits)

lemma matches_id [simp]: "matches [(k, v)] d = (map_of d k = Some v)"
  by (simp add: matches_def)

text \<open>
  Where no two documents have the same \<^verbatim>\<open>_id\<close>, deleting the first document with
  an \<^verbatim>\<open>_id\<close> leaves exactly the documents with another one.
\<close>

lemma delete_first_distinct:
  "distinct (doc_ids ds) \<Longrightarrow>
     delete_first [(''_id'', v)] ds = filter (\<lambda>d. map_of d ''_id'' \<noteq> Some v) ds"
proof (induction ds)
  case Nil
  then show ?case by simp
next
  case (Cons d ds)
  show ?case
  proof (cases "map_of d ''_id'' = Some v")
    case True
    then have "Some v \<notin> set (doc_ids ds)"
      using Cons.prems by (simp add: doc_ids_def)
    then have "filter (\<lambda>d. map_of d ''_id'' \<noteq> Some v) ds = ds"
      by (force simp: doc_ids_def filter_id_conv)
    then show ?thesis using True by simp
  next
    case False
    then show ?thesis using Cons by (simp add: doc_ids_def)
  qed
qed

lemma list_ex_id: "list_ex (matches [(''_id'', v)]) ds = (Some v \<in> set (doc_ids ds))"
  by (force simp: doc_ids_def list_ex_iff)

lemma DeleteOne_by_id:
  assumes "fault c = None" and "distinct (doc_ids (docs c))"
  shows "DeleteOne c [(''_id'', v)] =
           (c\<lparr>docs := filter (\<lambda>d. map_of d ''_id'' \<noteq> Some v) (docs c),
              calls := calls c @ [DeleteOneCall [(''_id'', v)]]\<rparr>,
            Inr (if Some v \<in> set (doc_ids (docs c)) then 1 else 0))"
  using assms by (simp add: DeleteOne_def logged_def delete_first_distinct list_ex_id)

text \<open>The collection keeps its \<^verbatim>\<open>_id\<close>s distinct when a document is inserted.\<close>

lemma InsertOne_keeps_ids_distinct:
  assumes "distinct (doc_ids (docs c))" and "InsertOne l c doc = (c', res)"
  shows "distinct (doc_ids (docs c'))"
  using assms
  by (auto simp add: InsertOne_def logged_def Let_def doc_ids_def
        split: option.splits if_splits prod.splits)

subsection \<open>The decoder\<close>

text \<open>Members that name no field do not change what is decoded.\<close>

lemma fillName_known:
  "fillName hook ms n saved = fillName hook (filter namesField ms) n saved"
  by (induction hook ms n saved rule: fillName.induct)
     (auto simp: namesField_def split: sum.splits)

lemma fillPayload_known:
  "fillPayload ms n saved = fillPayload (filter nameField ms) n saved"
  by (induction ms n saved rule: fillPayload.induct) (auto simp: nameField_def)

lemma scanBytes_append:
  "scanBytes s n buf = Done m \<Longrightarrow> scanBytes s n (buf @ rest) = Done m"
  by (induction buf arbitrary: s n) (auto split: prod.splits if_splits)

lemma scanBytes_bound:
  "scanBytes s n buf = Done m \<Longrightarrow> m \<le> n + length buf"
  by (induction buf arbitrary: s n) (fastforce split: prod.splits if_splits)+

lemma readValue_Done:
  assumes "scanBytes scanner_reset 0 buf = Done m"
  shows "readValue buf = Inr m \<and> m \<le> length buf"
  using assms scanBytes_bound [OF assms] by (simp add: readValue_def)

lemma readValue_append:
  assumes "scanBytes scanner_reset 0 buf = Done m"
  shows "readValue (buf @ rest) = Inr m"
  using scanBytes_append [OF assms] by (simp add: readValue_def)

lemma Decode_append:
  assumes "scanBytes scanner_reset 0 buf = Done m"
  shows "DecodeName hook (buf @ rest) = DecodeName hook buf"
    and "DecodePayload (buf @ rest) = DecodePayload buf"
  using readValue_append [OF assms] readValue_Done [OF assms]
  by (simp_all add: DecodeName_def DecodePayload_def)

text \<open>
  The handlers read the body through the decoder only, and a body that decodes to a name
  that is not empty is not answered with 400.
\<close>

lemma namesHandler_body:
  assumes "JSONDecodeName l (Body r) = JSONDecodeName l (Body r')"
    and "Method r = Method r'"
  shows "namesHandler l c w r = namesHandler l c w r'"
  using assms by (simp add: namesHandler_def cong: sum.case_cong if_cong)

lemma nameByIDHandler_body:
  assumes "JSONDecodePayload l (Body r) = JSONDecodePayload l (Body r')"
    and "Method r = Method r'" and "URLPath r = URLPath r'"
  shows "nameByIDHandler l c w r = nameByIDHandler l c w r'"
  using assms by (simp add: nameByIDHandler_def cong: sum.case_cong if_cong)

lemma create_not_bad_request:
  assumes "Method r = ''POST''" and "JSONDecodeName l (Body r) = Inr p"
    and "TrimSpace (Name p) \<noteq> []"
  shows "Status (snd (namesHandler l c w r)) = 201 \<or> Status (snd (namesHandler l c w r)) = 500"
proof -
  let ?n = "TrimSpace (Name p)"
  obtain c' res where ins: "InsertOne l c [(''name'', BString ?n)] = (c', res)"
    by (cases "InsertOne l c [(''name'', BString ?n)]")
  show ?thesis
  proof (cases res)
    case (Inl e)
    then show ?thesis using assms ins by (simp add: namesHandler_def created_fields internal_fields notFound_fields ok_fields)
  next
    case (Inr x)
    then have "x = BObjectID (NewObjectID l (generated c))"
      using InsertOne_name_result ins by blast
    then show ?thesis using assms ins Inr by (simp add: namesHandler_def created_fields internal_fields notFound_fields ok_fields)
  qed
qed

lemma replace_not_bad_request:
  assumes "Method r = ''PUT''" and "extractID (URLPath r) ''/names/'' = Inr idStr"
    and "ObjectIDFromHex idStr = Inr oid"
    and "JSONDecodePayload l (Body r) = Inr nm" and "TrimSpace nm \<noteq> []"
  shows "Status (snd (nameByIDHandler l c w r)) \<in> {200, 404, 500}"
proof -
  obtain c' res where up:
    "UpdateByID c oid [(''$set'', BDoc [(''name'', BString (TrimSpace nm))])] = (c', res)"
    by (cases "UpdateByID c oid [(''$set'', BDoc [(''name'', BString (TrimSpace nm))])]")
  show ?thesis
    using assms up by (cases res) (simp_all add: nameByIDHandler_def created_fields internal_fields notFound_fields ok_fields)
qed

text \<open>
  On the bodies of the examples the decoder that is written out returns what the
  decoders of \<open>example_lib\<close> are given to return.
\<close>

lemma example_decoders_agree:
  \<open>JSONDecodeName example_go_lib [] = JSONDecodeName example_lib []\<close>
  \<open>JSONDecodeName example_go_lib ''{"name":"  "}'' = JSONDecodeName example_lib ''{"name":"  "}''\<close>
  \<open>JSONDecodeName example_go_lib ''{"name":" Alice "}''
     = JSONDecodeName example_lib ''{"name":" Alice "}''\<close>
  \<open>JSONDecodeName example_go_lib ''{"id":"507f1f77bcf86cd799439011","name":" Alice "}''
     = JSONDecodeName example_lib ''{"id":"507f1f77bcf86cd799439011","name":" Alice "}''\<close>
  \<open>JSONDecodePayload example_go_lib [] = JSONDecodePayload example_lib []\<close>
  \<open>JSONDecodePayload example_go_lib ''{"name":"  "}''
     = JSONDecodePayload example_lib ''{"name":"  "}''\<close>
  \<open>JSONDecodePayload example_go_lib ''{"name":"Bob"}''
     = JSONDecodePayload example_lib ''{"name":"Bob"}''\<close>
  by code_simp+

lemma example_body_scan: "scanBytes scanner_reset 0 example_body = Done 33"
  by code_simp

lemma example_body_object:
  \<open>skipSpace (take 33 example_body) = CHR ''{'' # ''"name":" Alice ","role":"admin"}''\<close>
  by code_simp

lemma example_body_members:
  \<open>filter namesField (objectMembers ''"name":" Alice ","role":"admin"}'') =
     [(''"name"'', ''" Alice "'')]\<close>
  \<open>filter nameField (objectMembers ''"name":" Alice ","role":"admin"}'') =
     [(''"name"'', ''" Alice "'')]\<close>
  by code_simp+

lemma example_body_name:
  \<open>fillName example_UnmarshalJSON [(''"name"'', ''" Alice "'')]
      \<lparr>ID = NilObjectID, Name = []\<rparr> False
    = Inr \<lparr>ID = NilObjectID, Name = '' Alice ''\<rparr>\<close>
  by code_simp

lemma example_body_payload:
  \<open>fillPayload [(''"name"'', ''" Alice "'')] [] False = Inr '' Alice ''\<close>
  by code_simp

section \<open>Properties of the service\<close>

subsection \<open>Listing an empty collection\<close>

text \<open>
  C1 (as the code behaves). \<^verbatim>\<open>GET /names\<close> on a collection without documents,
  with the store answering, is answered with status 200, and the body is the JSON value
  \<^verbatim>\<open>null\<close>: \<^verbatim>\<open>out\<close> is declared as the nil slice, the loop never appends
  to it, and the encoder writes a nil slice as \<^verbatim>\<open>null\<close>. The body is not the
  empty array.
\<close>

theorem list_of_empty_collection_is_null:
  "Status (snd (serve l \<lparr>docs = [], fault = None, cursor_fault = None,
                          generated = n, calls = cs\<rparr>
                        \<lparr>Method = ''GET'', URLPath = ''/names'', Body = b\<rparr>)) = 200
   \<and> Written (snd (serve l \<lparr>docs = [], fault = None, cursor_fault = None,
                             generated = n, calls = cs\<rparr>
                           \<lparr>Method = ''GET'', URLPath = ''/names'', Body = b\<rparr>)) = JSON JNull
   \<and> JSON JNull \<noteq> JSON (JArray [])"
  by (simp add: serve_def corsMiddleware_def DefaultServeMux_def mux_match_def namesHandler_def
        Find_def logged_def ok_def jsonWrite_fields)

theorem list_of_empty_collection_is_null_witness:
  "Written (snd (serve example_lib empty_collection
                   \<lparr>Method = ''GET'', URLPath = ''/names'', Body = []\<rparr>)) = JSON JNull"
  using list_of_empty_collection_is_null [of example_lib 0 "[]" "[]"]
  by (simp add: empty_collection_def)

subsection \<open>Malformed identifiers\<close>

text \<open>
  C3. When the identifier taken from the path does not parse as an ObjectID, the item
  handler answers 400 with the body \<^verbatim>\<open>{"error":"invalid id"}\<close> and returns the
  collection as it was, the list of calls made on it included: no store call is made.
  This holds for every method, so for read-one, replace-name and delete.
\<close>

theorem malformed_id_is_bad_request:
  assumes "extractID (URLPath r) ''/names/'' = Inr idStr"
    and "ObjectIDFromHex idStr = Inl e"
  shows "nameByIDHandler l c w r = (c, badRequest w ''invalid id'')
       \<and> Status (badRequest w ''invalid id'') = 400
       \<and> Written (badRequest w ''invalid id'') =
           JSON (JObject [(''error'', JString ''invalid id'')])"
  using assms by (simp add: nameByIDHandler_def badRequest_fields)

theorem malformed_id_is_bad_request_witness:
  "extractID ''/names/not-an-id'' ''/names/'' = Inr ''not-an-id''
   \<and> ObjectIDFromHex ''not-an-id'' = Inl ErrInvalidHex
   \<and> nameByIDHandler example_lib example_collection NewResponseWriter
       \<lparr>Method = ''GET'', URLPath = ''/names/not-an-id'', Body = []\<rparr>
     = (example_collection, badRequest NewResponseWriter ''invalid id'')
   \<and> nameByIDHandler example_lib example_collection NewResponseWriter
       \<lparr>Method = ''PUT'', URLPath = ''/names/not-an-id'', Body = []\<rparr>
     = (example_collection, badRequest NewResponseWriter ''invalid id'')
   \<and> nameByIDHandler example_lib example_collection NewResponseWriter
       \<lparr>Method = ''DELETE'', URLPath = ''/names/not-an-id'', Body = []\<rparr>
     = (example_collection, badRequest NewResponseWriter ''invalid id'')"
  using malformed_id_is_bad_request
          [of "\<lparr>Method = ''GET'', URLPath = ''/names/not-an-id'', Body = []\<rparr>" "''not-an-id''"
              ErrInvalidHex example_lib example_collection NewResponseWriter]
        malformed_id_is_bad_request
          [of "\<lparr>Method = ''PUT'', URLPath = ''/names/not-an-id'', Body = []\<rparr>" "''not-an-id''"
              ErrInvalidHex example_lib example_collection NewResponseWriter]
        malformed_id_is_bad_request
          [of "\<lparr>Method = ''DELETE'', URLPath = ''/names/not-an-id'', Body = []\<rparr>" "''not-an-id''"
              ErrInvalidHex example_lib example_collection NewResponseWriter]
  by (simp add: extractID_examples not_an_id_hex)

subsection \<open>Creating a record\<close>



text \<open>
  A body whose \<^verbatim>\<open>id\<close> is not an identifier: the decoder refuses it, and
  \<^verbatim>\<open>POST /names\<close> is answered 400 \<^verbatim>\<open>invalid JSON\<close> with the collection
  unchanged, while the same body without the \<^verbatim>\<open>id\<close> is answered 201. The
  identifier sent by the client is therefore not ignored by the decoder.
\<close>

theorem client_id_refused_counterexample:
  \<open>serve example_go_lib example_collection
       \<lparr>Method = ''POST'', URLPath = ''/names'', Body = ''{"id":"zzz","name":"Alice"}''\<rparr>
     = (example_collection,
        badRequest
          (Header_Set (Header_Set (Header_Set NewResponseWriter
             ''Access-Control-Allow-Origin'' ''*'')
             ''Access-Control-Allow-Headers'' ''Content-Type'')
             ''Access-Control-Allow-Methods'' ''GET,POST,PUT,DELETE,OPTIONS'')
          ''invalid JSON: not an ObjectID'')
   \<and> Status (snd (serve example_go_lib example_collection
       \<lparr>Method = ''POST'', URLPath = ''/names'', Body = ''{"id":"zzz","name":"Alice"}''\<rparr>)) = 400
   \<and> Status (snd (serve example_go_lib example_collection
       \<lparr>Method = ''POST'', URLPath = ''/names'', Body = ''{"name":"Alice"}''\<rparr>)) = 201\<close>
proof -
  have bad: \<open>JSONDecodeName example_go_lib ''{"id":"zzz","name":"Alice"}'' = Inl ''not an ObjectID''\<close>
    by code_simp
  have good: \<open>JSONDecodeName example_go_lib ''{"name":"Alice"}''
                = Inr \<lparr>ID = NilObjectID, Name = ''Alice''\<rparr>\<close>
    by code_simp
  have ts: "TrimSpace ''Alice'' = ''Alice''" by code_simp
  have gen: "NewObjectID example_go_lib = example_NewObjectID"
    by (simp add: example_go_lib_def go_lib_def)
  show ?thesis
    by (simp add: serve_def corsMiddleware_def DefaultServeMux_def mux_match_def
          namesHandler_def bad good ts badRequest_fields created_fields Let_def
          InsertOne_def logged_def doc_ids_def example_collection_def example_oid_def
          gen example_NewObjectID_def)
qed

text \<open>
  C8 (amended). For \<^verbatim>\<open>POST /names\<close>, whatever the body: the handler makes no
  call on the collection or one call, \<^verbatim>\<open>InsertOne\<close> of a document whose only
  field is \<^verbatim>\<open>name\<close>; the collection gains no document or one document, made of
  the generated \<^verbatim>\<open>_id\<close> and that name; and a 201 response carries the generated
  identifier. Two requests whose bodies both decode, to the same name, get the same
  outcome whatever identifier each body carries: the decoded \<^verbatim>\<open>ID\<close> is never
  read. A body that the decoder refuses, as it does when the \<^verbatim>\<open>id\<close> cannot be
  stored in an ObjectID, is answered 400 \<^verbatim>\<open>invalid JSON\<close> with the collection
  unchanged.
\<close>

theorem create_ignores_client_id:
  assumes "Method r = ''POST''"
  shows "(calls (fst (namesHandler l c w r)) = calls c
          \<or> (\<exists>n. calls (fst (namesHandler l c w r)) =
                  calls c @ [InsertOneCall [(''name'', BString n)]]))
       \<and> (docs (fst (namesHandler l c w r)) = docs c
          \<or> (\<exists>n. docs (fst (namesHandler l c w r)) =
                  docs c @ [[(''_id'', BObjectID (NewObjectID l (generated c))),
                             (''name'', BString n)]]))
       \<and> (Status (snd (namesHandler l c w r)) = 201 \<longrightarrow>
            (\<exists>n. Written (snd (namesHandler l c w r)) =
                  JSON (JObject [(''id'', JString (Hex (NewObjectID l (generated c)))),
                                 (''name'', JString n)])))
       \<and> (Method r' = ''POST'' \<and> JSONDecodeName l (Body r) = Inr p
            \<and> JSONDecodeName l (Body r') = Inr p' \<and> Name p = Name p' \<longrightarrow>
            namesHandler l c w r = namesHandler l c w r')
       \<and> (JSONDecodeName l (Body r) = Inl err \<longrightarrow>
            namesHandler l c w r = (c, badRequest w (''invalid JSON: '' @ err)))"
proof -
  let ?R = "namesHandler l c w r"
  let ?gen = "NewObjectID l (generated c)"
  let ?first = "(calls (fst ?R) = calls c
          \<or> (\<exists>n. calls (fst ?R) = calls c @ [InsertOneCall [(''name'', BString n)]]))
       \<and> (docs (fst ?R) = docs c
          \<or> (\<exists>n. docs (fst ?R) =
                  docs c @ [[(''_id'', BObjectID ?gen), (''name'', BString n)]]))
       \<and> (Status (snd ?R) = 201 \<longrightarrow>
            (\<exists>n. Written (snd ?R) =
                  JSON (JObject [(''id'', JString (Hex ?gen)), (''name'', JString n)])))"
  have same: "Method r' = ''POST'' \<and> JSONDecodeName l (Body r) = Inr p
            \<and> JSONDecodeName l (Body r') = Inr p' \<and> Name p = Name p' \<longrightarrow>
            ?R = namesHandler l c w r'"
    using assms by (simp add: namesHandler_def)
  have refused: "JSONDecodeName l (Body r) = Inl err \<longrightarrow>
            ?R = (c, badRequest w (''invalid JSON: '' @ err))"
    using assms by (simp add: namesHandler_def)
  have first: ?first
  proof (cases "JSONDecodeName l (Body r)")
    case (Inl err)
    then have "?R = (c, badRequest w (''invalid JSON: '' @ err))"
      using assms by (simp add: namesHandler_def)
    then show ?thesis by (simp add: badRequest_fields)
  next
    case (Inr q)
    let ?n = "TrimSpace (Name q)"
    show ?thesis
    proof (cases "?n = []")
      case True
      then have "?R = (c, badRequest w ''`name` is required'')"
        using assms Inr by (simp add: namesHandler_def)
      then show ?thesis by (simp add: badRequest_fields)
    next
      case False
      obtain c' res where ins: "InsertOne l c [(''name'', BString ?n)] = (c', res)"
        by (cases "InsertOne l c [(''name'', BString ?n)]")
      have cl: "calls c' = calls c @ [InsertOneCall [(''name'', BString ?n)]]"
        using InsertOne_calls [of l c "[(''name'', BString ?n)]"] ins by simp
      show ?thesis
      proof (cases res)
        case (Inl e)
        then have h: "?R = (c', internal w e)"
          using assms \<open>JSONDecodeName l (Body r) = Inr q\<close> False ins
          by (simp add: namesHandler_def)
        have "docs c' = docs c" using InsertOne_refused ins Inl by blast
        then show ?thesis using h cl by (simp add: internal_fields)
      next
        case (Inr x)
        then have x: "x = BObjectID ?gen"
          and d: "docs c' = docs c @ [[(''_id'', BObjectID ?gen), (''name'', BString ?n)]]"
          using InsertOne_name_result ins by blast+
        have h: "?R = (c', created w (Name_json \<lparr>ID = ?gen, Name = ?n\<rparr>))"
          using assms \<open>JSONDecodeName l (Body r) = Inr q\<close> False ins Inr x
          by (simp add: namesHandler_def)
        show ?thesis using h cl d by (simp add: created_fields Name_json_def)
      qed
    qed
  qed
  from first same refused show ?thesis by blast
qed

theorem create_ignores_client_id_witness:
  \<open>namesHandler example_lib example_collection NewResponseWriter
       \<lparr>Method = ''POST'', URLPath = ''/names'',
        Body = ''{"id":"507f1f77bcf86cd799439011","name":" Alice "}''\<rparr>
     = namesHandler example_lib example_collection NewResponseWriter
       \<lparr>Method = ''POST'', URLPath = ''/names'', Body = ''{"name":" Alice "}''\<rparr>
   \<and> calls (fst (namesHandler example_lib example_collection NewResponseWriter
       \<lparr>Method = ''POST'', URLPath = ''/names'',
        Body = ''{"id":"507f1f77bcf86cd799439011","name":" Alice "}''\<rparr>))
     = [InsertOneCall [(''name'', BString ''Alice'')]]
   \<and> Written (snd (namesHandler example_lib example_collection NewResponseWriter
       \<lparr>Method = ''POST'', URLPath = ''/names'',
        Body = ''{"id":"507f1f77bcf86cd799439011","name":" Alice "}''\<rparr>))
     = JSON (JObject [(''id'', JString ''654a1b2caabbccddee000000''),
                      (''name'', JString ''Alice'')])
   \<and> JSONDecodeName example_go_lib ''{"id":"zzz","name":"Alice"}'' = Inl ''not an ObjectID''
   \<and> namesHandler example_go_lib example_collection NewResponseWriter
       \<lparr>Method = ''POST'', URLPath = ''/names'', Body = ''{"id":"zzz","name":"Alice"}''\<rparr>
     = (example_collection, badRequest NewResponseWriter ''invalid JSON: not an ObjectID'')\<close>
proof -
  let ?r = \<open>\<lparr>Method = ''POST'', URLPath = ''/names'',
               Body = ''{"id":"507f1f77bcf86cd799439011","name":" Alice "}''\<rparr>\<close>
  let ?r' = \<open>\<lparr>Method = ''POST'', URLPath = ''/names'', Body = ''{"name":" Alice "}''\<rparr>\<close>
  let ?bad = \<open>\<lparr>Method = ''POST'', URLPath = ''/names'', Body = ''{"id":"zzz","name":"Alice"}''\<rparr>\<close>
  have same: "namesHandler example_lib example_collection NewResponseWriter ?r
                = namesHandler example_lib example_collection NewResponseWriter ?r'"
    using create_ignores_client_id
            [where r = ?r and l = example_lib and c = example_collection
               and w = NewResponseWriter and r' = ?r'
               and p = \<open>\<lparr>ID = example_oid, Name = '' Alice ''\<rparr>\<close>
               and p' = \<open>\<lparr>ID = NilObjectID, Name = '' Alice ''\<rparr>\<close>]
    by (simp add: example_lib_def example_JSONDecodeName_def)
  have dec: \<open>JSONDecodeName example_go_lib ''{"id":"zzz","name":"Alice"}'' = Inl ''not an ObjectID''\<close>
    by code_simp
  have refused: "namesHandler example_go_lib example_collection NewResponseWriter ?bad
     = (example_collection, badRequest NewResponseWriter ''invalid JSON: not an ObjectID'')"
    using create_ignores_client_id
            [where r = ?bad and l = example_go_lib and c = example_collection
               and w = NewResponseWriter and err = \<open>''not an ObjectID''\<close>] dec
    by simp
  have "calls (fst (namesHandler example_lib example_collection NewResponseWriter ?r))
          = [InsertOneCall [(''name'', BString ''Alice'')]]
        \<and> Written (snd (namesHandler example_lib example_collection NewResponseWriter ?r))
          = JSON (JObject [(''id'', JString ''654a1b2caabbccddee000000''),
                           (''name'', JString ''Alice'')])"
    by (simp add: namesHandler_def example_lib_def example_JSONDecodeName_def TrimSpace_examples
          InsertOne_def logged_def doc_ids_def example_collection_def example_oid_def
          created_fields Name_json_def hexdigit_def example_NewObjectID_def Let_def)
  with same dec refused show ?thesis by blast
qed

subsection \<open>Replacing a name\<close>

text \<open>
  C5. For \<^verbatim>\<open>PUT /names/<id>\<close> the checks run in this order: the identifier must
  parse (else 400 \<^verbatim>\<open>invalid id\<close>, whatever the body is); then the body must decode
  (else 400 \<^verbatim>\<open>invalid JSON\<close>); then the trimmed name must not be empty (else 400
  \<^verbatim>\<open>`name` is required\<close>). The first check that fails gives the answer, and the
  collection is returned as it was: no update is made.
\<close>

theorem replace_validation_order:
  assumes "Method r = ''PUT''"
    and "extractID (URLPath r) ''/names/'' = Inr idStr"
  shows "(ObjectIDFromHex idStr = Inl e \<longrightarrow>
            nameByIDHandler l c w r = (c, badRequest w ''invalid id''))
       \<and> (ObjectIDFromHex idStr = Inr oid \<and> JSONDecodePayload l (Body r) = Inl err \<longrightarrow>
            nameByIDHandler l c w r = (c, badRequest w (''invalid JSON: '' @ err)))
       \<and> (ObjectIDFromHex idStr = Inr oid \<and> JSONDecodePayload l (Body r) = Inr nm
            \<and> TrimSpace nm = [] \<longrightarrow>
            nameByIDHandler l c w r = (c, badRequest w ''`name` is required''))
       \<and> Status (badRequest w msg) = 400"
  using assms by (simp add: nameByIDHandler_def badRequest_fields)

theorem replace_validation_order_witness:
  \<open>nameByIDHandler example_lib example_collection NewResponseWriter
       \<lparr>Method = ''PUT'', URLPath = ''/names/not-an-id'', Body = []\<rparr>
     = (example_collection, badRequest NewResponseWriter ''invalid id'')
   \<and> nameByIDHandler example_lib example_collection NewResponseWriter
       \<lparr>Method = ''PUT'', URLPath = ''/names/507f1f77bcf86cd799439011'', Body = []\<rparr>
     = (example_collection, badRequest NewResponseWriter ''invalid JSON: EOF'')
   \<and> nameByIDHandler example_lib example_collection NewResponseWriter
       \<lparr>Method = ''PUT'', URLPath = ''/names/507f1f77bcf86cd799439011'',
        Body = ''{"name":"  "}''\<rparr>
     = (example_collection, badRequest NewResponseWriter ''`name` is required'')\<close>
  using replace_validation_order
          [where r = \<open>\<lparr>Method = ''PUT'', URLPath = ''/names/not-an-id'', Body = []\<rparr>\<close>
             and idStr = \<open>''not-an-id''\<close> and e = ErrInvalidHex and l = example_lib
             and c = example_collection and w = NewResponseWriter]
        replace_validation_order
          [where r = \<open>\<lparr>Method = ''PUT'', URLPath = ''/names/507f1f77bcf86cd799439011'',
                        Body = []\<rparr>\<close>
             and idStr = \<open>''507f1f77bcf86cd799439011''\<close> and l = example_lib
             and c = example_collection and w = NewResponseWriter and oid = example_oid
             and err = \<open>''EOF''\<close>]
        replace_validation_order
          [where r = \<open>\<lparr>Method = ''PUT'', URLPath = ''/names/507f1f77bcf86cd799439011'',
                        Body = ''{"name":"  "}''\<rparr>\<close>
             and idStr = \<open>''507f1f77bcf86cd799439011''\<close> and l = example_lib
             and c = example_collection and w = NewResponseWriter and oid = example_oid
             and nm = \<open>''  ''\<close>]
  by (simp add: extractID_examples not_an_id_hex example_oid_hex example_lib_def
        example_JSONDecodePayload_def TrimSpace_examples)

subsection \<open>Deleting a record\<close>

text \<open>
  C6. For \<^verbatim>\<open>DELETE /names/<id>\<close> with an identifier that parses, on a collection
  that answers and holds no \<^verbatim>\<open>_id\<close> twice (as MongoDB guarantees), written to a
  fresh writer: when a document has this \<^verbatim>\<open>_id\<close>, the answer is 204 with no body,
  the collection keeps exactly the other documents, and the same request on the resulting
  collection is answered 404; when no document has it, the answer is 404
  \<^verbatim>\<open>not found\<close> and the documents are unchanged.
\<close>

theorem delete_then_delete_again:
  assumes "Method r = ''DELETE''"
    and "extractID (URLPath r) ''/names/'' = Inr idStr"
    and "ObjectIDFromHex idStr = Inr oid"
    and "fault c = None"
    and "distinct (doc_ids (docs c))"
    and "Written w = NoBody"
    and "nameByIDHandler l c w r = (c1, w1)"
    and "nameByIDHandler l c1 w r = (c2, w2)"
  shows "(Some (BObjectID oid) \<in> set (doc_ids (docs c)) \<longrightarrow>
            Status w1 = 204 \<and> Written w1 = NoBody
            \<and> docs c1 = filter (\<lambda>d. map_of d ''_id'' \<noteq> Some (BObjectID oid)) (docs c)
            \<and> Status w2 = 404
            \<and> Written w2 = JSON (JObject [(''error'', JString ''not found'')])
            \<and> docs c2 = docs c1)
       \<and> (Some (BObjectID oid) \<notin> set (doc_ids (docs c)) \<longrightarrow>
            Status w1 = 404
            \<and> Written w1 = JSON (JObject [(''error'', JString ''not found'')])
            \<and> docs c1 = docs c)"
proof -
  let ?v = "BObjectID oid"
  let ?keep = "\<lambda>d. map_of d ''_id'' \<noteq> Some ?v"
  have first: "(c1, w1) =
      (c\<lparr>docs := filter ?keep (docs c), calls := calls c @ [DeleteOneCall [(''_id'', ?v)]]\<rparr>,
       if Some ?v \<in> set (doc_ids (docs c)) then noContent w else notFound w)"
    using assms(1-5) DeleteOne_by_id [OF assms(4,5), of ?v]
    unfolding assms(7) [symmetric] by (simp add: nameByIDHandler_def)
  then have c1: "docs c1 = filter ?keep (docs c)" "fault c1 = None"
    using assms(4) by auto
  have d1: "distinct (doc_ids (docs c1))"
    using assms(5) c1(1) by (simp add: doc_ids_def distinct_map_filter)
  have gone: "Some ?v \<notin> set (doc_ids (docs c1))"
    using c1(1) by (auto simp: doc_ids_def)
  have second: "(c2, w2) =
      (c1\<lparr>docs := filter ?keep (docs c1), calls := calls c1 @ [DeleteOneCall [(''_id'', ?v)]]\<rparr>,
       notFound w)"
    using assms(1-3) gone DeleteOne_by_id [OF c1(2) d1, of ?v]
    unfolding assms(8) [symmetric] by (simp add: nameByIDHandler_def)
  have same: "filter ?keep (docs c1) = docs c1"
    using c1(1) by simp
  have absent: "Some ?v \<notin> set (doc_ids (docs c)) \<Longrightarrow> filter ?keep (docs c) = docs c"
    by (force simp: doc_ids_def filter_id_conv)
  show ?thesis
    using first second same absent assms(6) c1(1)
    by (auto simp: noContent_fields notFound_fields)
qed

theorem delete_then_delete_again_witness:
  "Status (snd (nameByIDHandler example_lib example_collection NewResponseWriter
       \<lparr>Method = ''DELETE'', URLPath = ''/names/507f1f77bcf86cd799439011'', Body = []\<rparr>)) = 204
   \<and> docs (fst (nameByIDHandler example_lib example_collection NewResponseWriter
       \<lparr>Method = ''DELETE'', URLPath = ''/names/507f1f77bcf86cd799439011'', Body = []\<rparr>)) = []
   \<and> Status (snd (nameByIDHandler example_lib
       (fst (nameByIDHandler example_lib example_collection NewResponseWriter
          \<lparr>Method = ''DELETE'', URLPath = ''/names/507f1f77bcf86cd799439011'', Body = []\<rparr>))
       NewResponseWriter
       \<lparr>Method = ''DELETE'', URLPath = ''/names/507f1f77bcf86cd799439011'', Body = []\<rparr>)) = 404"
proof -
  let ?r = "\<lparr>Method = ''DELETE'', URLPath = ''/names/507f1f77bcf86cd799439011'', Body = []\<rparr>"
  let ?first = "nameByIDHandler example_lib example_collection NewResponseWriter ?r"
  let ?second = "nameByIDHandler example_lib (fst ?first) NewResponseWriter ?r"
  have present: "Some (BObjectID example_oid) \<in> set (doc_ids (docs example_collection))"
    by (simp add: example_collection_def doc_ids_def)
  have "Status (snd ?first) = 204 \<and> Written (snd ?first) = NoBody
        \<and> docs (fst ?first) =
            filter (\<lambda>d. map_of d ''_id'' \<noteq> Some (BObjectID example_oid)) (docs example_collection)
        \<and> Status (snd ?second) = 404
        \<and> Written (snd ?second) = JSON (JObject [(''error'', JString ''not found'')])
        \<and> docs (fst ?second) = docs (fst ?first)"
    using delete_then_delete_again
            [where r = ?r and idStr = "''507f1f77bcf86cd799439011''" and oid = example_oid
               and c = example_collection and w = NewResponseWriter and l = example_lib
               and ?c1.0 = "fst ?first" and ?w1.0 = "snd ?first"
               and ?c2.0 = "fst ?second" and ?w2.0 = "snd ?second"]
          present
    by (simp add: extractID_examples example_oid_hex example_collection_def doc_ids_def
          NewResponseWriter_def)
  then show ?thesis by (simp add: example_collection_def)
qed

subsection \<open>Paths with more segments\<close>

text \<open>
  The path \<^verbatim>\<open>/names/not-an-id/extra\<close> is dispatched to the item handler, and the
  answer is 400, not 404; with the identifier of a stored document in front of
  \<^verbatim>\<open>/extra\<close> the answer is 200.
\<close>

theorem extra_segments_counterexample:
  "mux_match ''/names/not-an-id/extra'' = ToNameByID
   \<and> Status (snd (serve example_lib example_collection
        \<lparr>Method = ''GET'', URLPath = ''/names/not-an-id/extra'', Body = []\<rparr>)) = 400
   \<and> Status (snd (serve example_lib example_collection
        \<lparr>Method = ''GET'', URLPath = ''/names/507f1f77bcf86cd799439011/extra'', Body = []\<rparr>)) = 200"
  by (simp add: serve_def corsMiddleware_def DefaultServeMux_def mux_match_def HasPrefix_def
        nameByIDHandler_def extractID_examples not_an_id_hex example_oid_hex
        badRequest_def ok_def jsonWrite_fields FindOne_def logged_def example_collection_def
        example_lib_def example_BSONDecodeName_def)

text \<open>
  C2 (amended). When the item handler is given a path \<^verbatim>\<open>/names/<id>/<more>\<close>,
  where \<^verbatim>\<open><id>\<close> is a segment that is not empty, \<open>extractID\<close> returns
  \<^verbatim>\<open><id>\<close> and the handler does exactly what it does on
  \<^verbatim>\<open>/names/<id>\<close>: what follows the identifier is dropped. In particular an
  \<^verbatim>\<open><id>\<close> that is not an identifier is answered 400 \<^verbatim>\<open>invalid id\<close>
  with the collection unchanged, extra segments or not. The statement is about the
  handler, for every method, body, collection and writer.
\<close>

theorem extra_segments_are_ignored:
  assumes "idStr \<noteq> []" and "CHR ''/'' \<notin> set idStr"
  shows "extractID (''/names/'' @ idStr @ ''/'' @ extra) ''/names/'' = Inr idStr
       \<and> nameByIDHandler l c w (r\<lparr>URLPath := ''/names/'' @ idStr @ ''/'' @ extra\<rparr>)
           = nameByIDHandler l c w (r\<lparr>URLPath := ''/names/'' @ idStr\<rparr>)
       \<and> (ObjectIDFromHex idStr = Inl e \<longrightarrow>
            nameByIDHandler l c w (r\<lparr>URLPath := ''/names/'' @ idStr @ ''/'' @ extra\<rparr>)
              = (c, badRequest w ''invalid id''))"
proof -
  have a: "extractID (''/names/'' @ idStr @ ''/'' @ extra) ''/names/'' = Inr idStr"
    using extractID_first_segment [OF assms, of "''/'' @ extra"] by simp
  have b: "extractID (''/names/'' @ idStr) ''/names/'' = Inr idStr"
    using extractID_first_segment [OF assms, of "[]"] by simp
  have h: "nameByIDHandler l c w (r\<lparr>URLPath := ''/names/'' @ idStr @ ''/'' @ extra\<rparr>)
           = nameByIDHandler l c w (r\<lparr>URLPath := ''/names/'' @ idStr\<rparr>)"
    using a b by (intro nameByIDHandler_path) simp_all
  have bad: "ObjectIDFromHex idStr = Inl e \<longrightarrow>
            nameByIDHandler l c w (r\<lparr>URLPath := ''/names/'' @ idStr @ ''/'' @ extra\<rparr>)
              = (c, badRequest w ''invalid id'')"
    using a by (simp add: nameByIDHandler_def)
  from a h bad show ?thesis by blast
qed

theorem extra_segments_are_ignored_witness:
  "''not-an-id'' \<noteq> [] \<and> CHR ''/'' \<notin> set ''not-an-id''
   \<and> ObjectIDFromHex ''not-an-id'' = Inl ErrInvalidHex
   \<and> extractID ''/names/not-an-id/extra'' ''/names/'' = Inr ''not-an-id''
   \<and> nameByIDHandler example_lib example_collection NewResponseWriter
        \<lparr>Method = ''GET'', URLPath = ''/names/not-an-id/extra'', Body = []\<rparr>
      = nameByIDHandler example_lib example_collection NewResponseWriter
        \<lparr>Method = ''GET'', URLPath = ''/names/not-an-id'', Body = []\<rparr>
   \<and> nameByIDHandler example_lib example_collection NewResponseWriter
        \<lparr>Method = ''GET'', URLPath = ''/names/not-an-id/extra'', Body = []\<rparr>
      = (example_collection, badRequest NewResponseWriter ''invalid id'')"
proof -
  note t = extra_segments_are_ignored
          [where idStr = "''not-an-id''" and extra = "''extra''" and l = example_lib
             and c = example_collection and w = NewResponseWriter and e = ErrInvalidHex
             and r = "\<lparr>Method = ''GET'', URLPath = [], Body = []\<rparr>"]
  have p: "''not-an-id'' \<noteq> []" "CHR ''/'' \<notin> set ''not-an-id''" by simp_all
  have a: "extractID ''/names/not-an-id/extra'' ''/names/'' = Inr ''not-an-id''"
    using t [OF p, THEN conjunct1] by simp
  have b: "nameByIDHandler example_lib example_collection NewResponseWriter
        \<lparr>Method = ''GET'', URLPath = ''/names/not-an-id/extra'', Body = []\<rparr>
      = nameByIDHandler example_lib example_collection NewResponseWriter
        \<lparr>Method = ''GET'', URLPath = ''/names/not-an-id'', Body = []\<rparr>"
    using t [OF p, THEN conjunct2, THEN conjunct1] by simp
  have c: "nameByIDHandler example_lib example_collection NewResponseWriter
        \<lparr>Method = ''GET'', URLPath = ''/names/not-an-id/extra'', Body = []\<rparr>
      = (example_collection, badRequest NewResponseWriter ''invalid id'')"
    using t [OF p, THEN conjunct2, THEN conjunct2] not_an_id_hex by simp
  from p a b c not_an_id_hex show ?thesis by blast
qed

subsection \<open>Other methods on the collection path\<close>

text \<open>
  \<^verbatim>\<open>OPTIONS /names\<close> is answered by the CORS wrapper: status 204, no
  \<^verbatim>\<open>Allow\<close> header, no body.
\<close>

theorem names_options_counterexample:
  "Status (snd (serve example_lib example_collection
        \<lparr>Method = ''OPTIONS'', URLPath = ''/names'', Body = []\<rparr>)) = 204
   \<and> Header (snd (serve example_lib example_collection
        \<lparr>Method = ''OPTIONS'', URLPath = ''/names'', Body = []\<rparr>)) ''Allow'' = None
   \<and> Written (snd (serve example_lib example_collection
        \<lparr>Method = ''OPTIONS'', URLPath = ''/names'', Body = []\<rparr>)) = NoBody"
  by (simp add: serve_def corsMiddleware_def WriteHeader_def Header_Set_def NewResponseWriter_def)

text \<open>
  C7 (amended). The collection handler answers every method other than
  \<^verbatim>\<open>GET\<close> and \<^verbatim>\<open>POST\<close> with 405. The service, for a request to the path
  \<^verbatim>\<open>/names\<close> with such a method, leaves the collection as it was and answers:
  for \<^verbatim>\<open>OPTIONS\<close>, 204 without a body, from the CORS wrapper; for every other
  method, 405 with the header \<^verbatim>\<open>Allow: GET, POST\<close> and a JSON body that has the
  allowed methods under \<^verbatim>\<open>allow\<close> and a message under \<^verbatim>\<open>error\<close>.
\<close>

theorem names_other_methods:
  assumes "URLPath r = ''/names''" and "Method r \<noteq> ''GET''" and "Method r \<noteq> ''POST''"
  shows "namesHandler l c w r = (c, methodNotAllowed w [''GET'', ''POST''])
       \<and> fst (serve l c r) = c
       \<and> (if Method r = ''OPTIONS''
          then Status (snd (serve l c r)) = 204
             \<and> Written (snd (serve l c r)) = NoBody
             \<and> Header (snd (serve l c r)) ''Allow'' = None
          else Status (snd (serve l c r)) = 405
             \<and> Header (snd (serve l c r)) ''Allow'' = Some ''GET, POST''
             \<and> Written (snd (serve l c r)) =
                 JSON (JObject [(''allow'', JArray [JString ''GET'', JString ''POST'']),
                                (''error'', JString ''method not allowed'')]))"
proof -
  have h: "namesHandler l c w r = (c, methodNotAllowed w [''GET'', ''POST''])" for w
    using assms by (simp add: namesHandler_def)
  show ?thesis
    using assms h
    by (simp add: serve_def corsMiddleware_def DefaultServeMux_def mux_match_def
          methodNotAllowed_fields WriteHeader_def Header_Set_def NewResponseWriter_def)
qed

theorem names_other_methods_witness:
  "Status (snd (serve example_lib example_collection
        \<lparr>Method = ''PATCH'', URLPath = ''/names'', Body = []\<rparr>)) = 405
   \<and> Header (snd (serve example_lib example_collection
        \<lparr>Method = ''PATCH'', URLPath = ''/names'', Body = []\<rparr>)) ''Allow'' = Some ''GET, POST''
   \<and> Written (snd (serve example_lib example_collection
        \<lparr>Method = ''PATCH'', URLPath = ''/names'', Body = []\<rparr>)) =
       JSON (JObject [(''allow'', JArray [JString ''GET'', JString ''POST'']),
                      (''error'', JString ''method not allowed'')])"
  using names_other_methods
          [where r = "\<lparr>Method = ''PATCH'', URLPath = ''/names'', Body = []\<rparr>"
             and l = example_lib and c = example_collection and w = NewResponseWriter]
  by simp

subsection \<open>The path without an identifier\<close>

text \<open>\<^verbatim>\<open>OPTIONS /names/\<close> is answered by the CORS wrapper with status 204.\<close>

theorem missing_id_options_counterexample:
  "Status (snd (serve example_lib example_collection
        \<lparr>Method = ''OPTIONS'', URLPath = ''/names/'', Body = []\<rparr>)) = 204"
  by (simp add: serve_def corsMiddleware_def WriteHeader_def)

text \<open>
  C9 (amended). The item handler answers a path \<^verbatim>\<open>/names/\<close>, also when only
  slashes follow it, with 404 \<^verbatim>\<open>not found\<close>, whatever the method, and returns the
  collection as it was: \<open>extractID\<close> fails before the identifier is parsed. The service,
  for a request to the path \<^verbatim>\<open>/names/\<close>, leaves the collection as it was and
  answers 404 \<^verbatim>\<open>not found\<close>, never 400, except for \<^verbatim>\<open>OPTIONS\<close>, which the
  CORS wrapper answers with 204.
\<close>

theorem missing_id_is_not_found:
  assumes "URLPath r = ''/names/''"
  shows "nameByIDHandler l c w (r\<lparr>URLPath := ''/names/'' @ replicate k (CHR ''/'')\<rparr>)
           = (c, notFound w)
       \<and> fst (serve l c r) = c
       \<and> (if Method r = ''OPTIONS''
          then Status (snd (serve l c r)) = 204 \<and> Written (snd (serve l c r)) = NoBody
          else Status (snd (serve l c r)) = 404
             \<and> Written (snd (serve l c r)) = JSON (JObject [(''error'', JString ''not found'')]))"
proof -
  have h: "nameByIDHandler l c w (r\<lparr>URLPath := ''/names/'' @ replicate k (CHR ''/'')\<rparr>)
             = (c, notFound w)" for w k
    using extractID_no_segment [of k] by (simp add: nameByIDHandler_def)
  have "r\<lparr>URLPath := ''/names/'' @ replicate 0 (CHR ''/'')\<rparr> = r"
    using assms by simp
  then have h0: "nameByIDHandler l c w r = (c, notFound w)" for w
    using h [of w 0] by simp
  show ?thesis
    using assms h h0
    by (simp add: serve_def corsMiddleware_def DefaultServeMux_def mux_match_def HasPrefix_def
          notFound_fields WriteHeader_def Header_Set_def NewResponseWriter_def)
qed

theorem missing_id_is_not_found_witness:
  "Status (snd (serve example_lib example_collection
        \<lparr>Method = ''GET'', URLPath = ''/names/'', Body = []\<rparr>)) = 404
   \<and> Written (snd (serve example_lib example_collection
        \<lparr>Method = ''GET'', URLPath = ''/names/'', Body = []\<rparr>)) =
       JSON (JObject [(''error'', JString ''not found'')])
   \<and> nameByIDHandler example_lib example_collection NewResponseWriter
        \<lparr>Method = ''GET'', URLPath = ''/names//'', Body = []\<rparr>
      = (example_collection, notFound NewResponseWriter)"
  using missing_id_is_not_found
          [where r = "\<lparr>Method = ''GET'', URLPath = ''/names/'', Body = []\<rparr>"
             and l = example_lib and c = example_collection and w = NewResponseWriter
             and k = 1]
  by simp

subsection \<open>Decoding the body\<close>

text \<open>
  C10. With the decoder of \<^verbatim>\<open>encoding/json\<close>: when the body starts with a
  complete JSON object, what the decoder returns for Create and for Replace-name is what
  the members named \<^verbatim>\<open>name\<close> (and \<^verbatim>\<open>id\<close>, for Create) give; every
  other member is skipped. What follows the object is never read: the handlers do on the
  body with trailing bytes exactly what they do on the body without them, and when the
  name decodes to a string that is not empty once trimmed, the answer is not 400.
\<close>

theorem body_decoding_is_lenient:
  assumes "scanBytes scanner_reset 0 body = Done m"
    and "skipSpace (take m body) = CHR ''{'' # inside"
  shows "DecodeName hook (body @ rest) =
           fillName hook (filter namesField (objectMembers inside))
             \<lparr>ID = NilObjectID, Name = []\<rparr> False
       \<and> DecodePayload (body @ rest) = fillPayload (filter nameField (objectMembers inside)) [] False
       \<and> namesHandler (go_lib render hook bsonDecode newID) c w (r\<lparr>Body := body @ rest\<rparr>)
           = namesHandler (go_lib render hook bsonDecode newID) c w (r\<lparr>Body := body\<rparr>)
       \<and> nameByIDHandler (go_lib render hook bsonDecode newID) c w (r\<lparr>Body := body @ rest\<rparr>)
           = nameByIDHandler (go_lib render hook bsonDecode newID) c w (r\<lparr>Body := body\<rparr>)
       \<and> (Method r = ''POST''
            \<and> fillName hook (filter namesField (objectMembers inside))
                 \<lparr>ID = NilObjectID, Name = []\<rparr> False = Inr p
            \<and> TrimSpace (Name p) \<noteq> [] \<longrightarrow>
            Status (snd (namesHandler (go_lib render hook bsonDecode newID) c w
                           (r\<lparr>Body := body @ rest\<rparr>))) \<noteq> 400)
       \<and> (Method r = ''PUT'' \<and> extractID (URLPath r) ''/names/'' = Inr idStr
            \<and> ObjectIDFromHex idStr = Inr oid
            \<and> fillPayload (filter nameField (objectMembers inside)) [] False = Inr nm
            \<and> TrimSpace nm \<noteq> [] \<longrightarrow>
            Status (snd (nameByIDHandler (go_lib render hook bsonDecode newID) c w
                           (r\<lparr>Body := body @ rest\<rparr>))) \<noteq> 400)"
proof -
  let ?L = "go_lib render hook bsonDecode newID"
  let ?zero = "\<lparr>ID = NilObjectID, Name = []\<rparr>"
  have rv: "readValue (body @ rest) = Inr m" "readValue body = Inr m" "m \<le> length body"
    using readValue_append [OF assms(1)] readValue_Done [OF assms(1)] by simp_all
  have tk: "take m (body @ rest) = take m body" using rv(3) by simp
  have dn: "DecodeName hook (body @ rest) = fillName hook (filter namesField (objectMembers inside)) ?zero False"
    using rv tk assms(2) fillName_known [of hook "objectMembers inside" ?zero False]
    by (simp add: DecodeName_def unmarshalName_def)
  have dp: "DecodePayload (body @ rest) = fillPayload (filter nameField (objectMembers inside)) [] False"
    using rv tk assms(2) fillPayload_known [of "objectMembers inside" "[]" False]
    by (simp add: DecodePayload_def unmarshalPayload_def)
  have same: "DecodeName hook (body @ rest) = DecodeName hook body"
    "DecodePayload (body @ rest) = DecodePayload body"
    using Decode_append [OF assms(1)] by simp_all
  have h1: "namesHandler ?L c w (r\<lparr>Body := body @ rest\<rparr>) = namesHandler ?L c w (r\<lparr>Body := body\<rparr>)"
    using same by (intro namesHandler_body) (simp_all add: go_lib_def)
  have h2: "nameByIDHandler ?L c w (r\<lparr>Body := body @ rest\<rparr>)
              = nameByIDHandler ?L c w (r\<lparr>Body := body\<rparr>)"
    using same by (intro nameByIDHandler_body) (simp_all add: go_lib_def)
  have s1: "Status (snd (namesHandler ?L c w (r\<lparr>Body := body @ rest\<rparr>))) \<noteq> 400"
    if "Method r = ''POST''"
      and "fillName hook (filter namesField (objectMembers inside)) ?zero False = Inr p"
      and "TrimSpace (Name p) \<noteq> []"
  proof -
    have "JSONDecodeName ?L (Body (r\<lparr>Body := body @ rest\<rparr>)) = Inr p"
      using dn that(2) by (simp add: go_lib_def with_message_def)
    from create_not_bad_request [OF _ this that(3), of c w] that(1)
    show ?thesis by auto
  qed
  have s2: "Status (snd (nameByIDHandler ?L c w (r\<lparr>Body := body @ rest\<rparr>))) \<noteq> 400"
    if "Method r = ''PUT''" and "extractID (URLPath r) ''/names/'' = Inr idStr"
      and "ObjectIDFromHex idStr = Inr oid"
      and "fillPayload (filter nameField (objectMembers inside)) [] False = Inr nm"
      and "TrimSpace nm \<noteq> []"
  proof -
    have "JSONDecodePayload ?L (Body (r\<lparr>Body := body @ rest\<rparr>)) = Inr nm"
      using dp that(4) by (simp add: go_lib_def with_message_def)
    from replace_not_bad_request [OF _ _ that(3) this that(5), of c w] that(1,2)
    show ?thesis by auto
  qed
  from dn dp h1 h2 s1 s2 show ?thesis by blast
qed

theorem body_decoding_is_lenient_witness:
  \<open>DecodeName example_UnmarshalJSON ''{"name":" Alice ","role":"admin"} trailing''
     = Inr \<lparr>ID = NilObjectID, Name = '' Alice ''\<rparr>
   \<and> DecodePayload ''{"name":" Alice ","role":"admin"} trailing'' = Inr '' Alice ''
   \<and> Status (snd (namesHandler example_go_lib example_collection NewResponseWriter
        \<lparr>Method = ''POST'', URLPath = ''/names'',
         Body = ''{"name":" Alice ","role":"admin"} trailing''\<rparr>)) \<noteq> 400
   \<and> Status (snd (nameByIDHandler example_go_lib example_collection NewResponseWriter
        \<lparr>Method = ''PUT'', URLPath = ''/names/507f1f77bcf86cd799439011'',
         Body = ''{"name":" Alice ","role":"admin"} trailing''\<rparr>)) \<noteq> 400\<close>
proof -
  note post = body_decoding_is_lenient
          [where body = example_body and m = 33
             and inside = \<open>''"name":" Alice ","role":"admin"}''\<close>
             and rest = \<open>'' trailing''\<close> and hook = example_UnmarshalJSON
             and render = example_render and bsonDecode = example_BSONDecodeName
             and newID = example_NewObjectID and c = example_collection
             and w = NewResponseWriter
             and r = \<open>\<lparr>Method = ''POST'', URLPath = ''/names'', Body = []\<rparr>\<close>
             and p = \<open>\<lparr>ID = NilObjectID, Name = '' Alice ''\<rparr>\<close>,
           OF example_body_scan example_body_object]
  note put = body_decoding_is_lenient
          [where body = example_body and m = 33
             and inside = \<open>''"name":" Alice ","role":"admin"}''\<close>
             and rest = \<open>'' trailing''\<close> and hook = example_UnmarshalJSON
             and render = example_render and bsonDecode = example_BSONDecodeName
             and newID = example_NewObjectID and c = example_collection
             and w = NewResponseWriter
             and r = \<open>\<lparr>Method = ''PUT'', URLPath = ''/names/507f1f77bcf86cd799439011'',
                          Body = []\<rparr>\<close>
             and idStr = \<open>''507f1f77bcf86cd799439011''\<close> and oid = example_oid
             and nm = \<open>'' Alice ''\<close>,
           OF example_body_scan example_body_object]
  have a: \<open>DecodeName example_UnmarshalJSON ''{"name":" Alice ","role":"admin"} trailing''
              = Inr \<lparr>ID = NilObjectID, Name = '' Alice ''\<rparr>\<close>
    using post [THEN conjunct1]
    by (simp add: example_body_members example_body_name example_body_def
          del: fillName.simps)
  have b: \<open>DecodePayload ''{"name":" Alice ","role":"admin"} trailing'' = Inr '' Alice ''\<close>
    using post [THEN conjunct2, THEN conjunct1]
    by (simp add: example_body_members example_body_payload example_body_def
          del: fillPayload.simps)
  have c: \<open>Status (snd (namesHandler example_go_lib example_collection NewResponseWriter
        \<lparr>Method = ''POST'', URLPath = ''/names'',
         Body = ''{"name":" Alice ","role":"admin"} trailing''\<rparr>)) \<noteq> 400\<close>
    using post [THEN conjunct2, THEN conjunct2, THEN conjunct2, THEN conjunct2, THEN conjunct1]
    by (simp add: example_body_members example_body_name TrimSpace_examples example_go_lib_def
          example_body_def del: fillName.simps)
  have d: \<open>Status (snd (nameByIDHandler example_go_lib example_collection NewResponseWriter
        \<lparr>Method = ''PUT'', URLPath = ''/names/507f1f77bcf86cd799439011'',
         Body = ''{"name":" Alice ","role":"admin"} trailing''\<rparr>)) \<noteq> 400\<close>
    using put [THEN conjunct2, THEN conjunct2, THEN conjunct2, THEN conjunct2, THEN conjunct2]
    by (simp add: example_body_members example_body_payload TrimSpace_examples example_go_lib_def
          example_oid_hex extractID_examples example_body_def del: fillPayload.simps)
  from a b c d show ?thesis by blast
qed

end
